theory Spec2Isabelle
  imports Complex_Main "HOL-Library.Multiset"
begin

chapter \<open>The configuration service: mock API, server controllers, form and client\<close>

text \<open>
  The repository holds several generations of a small configuration service. This theory
  embeds the parts the properties below are about: the mock API handlers of the UI tests,
  the Express controllers for applications and configurations with the relational store
  behind them, the validation of the create-application form, and the typed client.
\<close>

section \<open>JSON values\<close>

text \<open>
  Request and response bodies are JSON. A configuration document is a JSON object
  (\<open>Record<string, any>\<close> in the sources); numbers are kept as integers.
\<close>

datatype json =
    JNull
  | JBool bool
  | JNum int
  | JStr string
  | JArr "json list"
  | JObj "(string \<times> json) list"

section \<open>The mock API handlers (ui/tests/mocks/api-handlers.ts)\<close>

text \<open>
  The mock keeps two module-level tables: the array \<open>mockApplications\<close> and the
  dictionary \<open>mockConfigurations\<close>, keyed by application id. Every handler reads and
  writes them in place; the model passes the pair as a state and returns it updated.
  The dictionary is a map from ids to records: an id is looked up among the entries that
  were stored, and the property names every object inherits are not ids.
\<close>

record application_response =
  ar_id :: string
  ar_name :: string
  ar_description :: "string option"

record application_create =
  ac_name :: string
  ac_description :: "string option"

record configuration_response =
  cr_application_id :: string
  cr_config :: json

record configuration_update =
  cu_config :: json

record mock_state =
  mockApplications :: "application_response list"
  mockConfigurations :: "string \<rightharpoonup> configuration_response"

datatype mock_payload =
    PApplication application_response
  | PConfiguration configuration_response
  | PDetail string
  | PEmpty

type_synonym mock_reply = "nat \<times> mock_payload"

definition mock_init :: mock_state where
  "mock_init =
     \<lparr> mockApplications =
         [ \<lparr> ar_id = ''01ARZ3NDEKTSV4RRFFQ69G5FAV'', ar_name = ''Test App 1'',
             ar_description = Some ''First test application'' \<rparr>,
           \<lparr> ar_id = ''01ARZ3NDEKTSV4RRFFQ69G5FB0'', ar_name = ''Test App 2'',
             ar_description = Some ''Second test application'' \<rparr> ],
       mockConfigurations =
         [ ''01ARZ3NDEKTSV4RRFFQ69G5FAV'' \<mapsto>
             \<lparr> cr_application_id = ''01ARZ3NDEKTSV4RRFFQ69G5FAV'',
               cr_config = JObj [(''theme'', JStr ''dark''), (''timeout'', JNum 30)] \<rparr>,
           ''01ARZ3NDEKTSV4RRFFQ69G5FB0'' \<mapsto>
             \<lparr> cr_application_id = ''01ARZ3NDEKTSV4RRFFQ69G5FB0'',
               cr_config = JObj [(''theme'', JStr ''light''), (''timeout'', JNum 60)] \<rparr> ] \<rparr>"

text \<open>\<open>Array.prototype.findIndex\<close>: the index of the first match, \<open>-1\<close> (here \<open>None\<close>) if none.\<close>

fun findIndex :: "('a \<Rightarrow> bool) \<Rightarrow> 'a list \<Rightarrow> nat option" where
  "findIndex p [] = None"
| "findIndex p (x # xs) =
     (if p x then Some 0 else map_option Suc (findIndex p xs))"

text \<open>\<open>xs.splice(i, 1)\<close> removes the element at index \<open>i\<close>.\<close>

definition splice1 :: "nat \<Rightarrow> 'a list \<Rightarrow> 'a list" where
  "splice1 i xs = take i xs @ drop (Suc i) xs"

text \<open>GET /api/v1/applications/:id\<close>

definition get_application :: "mock_state \<Rightarrow> string \<Rightarrow> mock_reply" where
  "get_application st i =
     (case find (\<lambda>a. ar_id a = i) (mockApplications st) of
        None \<Rightarrow> (404, PDetail ''Application not found'')
      | Some app \<Rightarrow> (200, PApplication app))"

text \<open>POST /api/v1/applications: the new entry always gets the same fixed id.\<close>

definition post_application :: "mock_state \<Rightarrow> application_create \<Rightarrow> mock_reply \<times> mock_state" where
  "post_application st data =
     (let newApp = \<lparr> ar_id = ''01ARZ3NDEKTSV4RRFFQ69G5FC0'', ar_name = ac_name data,
                      ar_description = ac_description data \<rparr>
      in ((201, PApplication newApp),
          st\<lparr> mockApplications := mockApplications st @ [newApp] \<rparr>))"

text \<open>DELETE /api/v1/applications/:id: only \<open>mockApplications\<close> is touched.\<close>

definition delete_application :: "mock_state \<Rightarrow> string \<Rightarrow> mock_reply \<times> mock_state" where
  "delete_application st i =
     (case findIndex (\<lambda>a. ar_id a = i) (mockApplications st) of
        None \<Rightarrow> ((404, PDetail ''Application not found''), st)
      | Some index \<Rightarrow>
          ((204, PEmpty), st\<lparr> mockApplications := splice1 index (mockApplications st) \<rparr>))"

text \<open>GET /api/v1/applications/:id/config\<close>

definition get_config :: "mock_state \<Rightarrow> string \<Rightarrow> mock_reply" where
  "get_config st i =
     (case mockConfigurations st i of
        None \<Rightarrow> (404, PDetail ''Configuration not found'')
      | Some config \<Rightarrow> (200, PConfiguration config))"

text \<open>
  PUT /api/v1/applications/:id/config: builds the record from the path id and the body's
  \<open>config\<close>, assigns it to \<open>mockConfigurations[id]\<close> and answers 200 with it.
\<close>

definition put_config :: "mock_state \<Rightarrow> string \<Rightarrow> configuration_update \<Rightarrow> mock_reply \<times> mock_state" where
  "put_config st i data =
     (let config = \<lparr> cr_application_id = i, cr_config = cu_config data \<rparr>
      in ((200, PConfiguration config),
          st\<lparr> mockConfigurations := (mockConfigurations st)(i \<mapsto> config) \<rparr>))"

section \<open>Strings and numbers of the runtime\<close>

text \<open>
  Path and query parameters reach the controllers as strings. A number of the runtime is
  a double; the numbers that occur here are integers, so a finite number is the integer
  it denotes and \<open>None\<close> stands for a value that is not finite (\<open>NaN\<close>, \<open>Infinity\<close>).
  Characters are ASCII; white space is the space and the control characters from tab to
  carriage return.
\<close>

text \<open>The number of binary digits of a positive integer.\<close>

function bitlen :: "int \<Rightarrow> nat" where
  "bitlen n = (if n \<le> 0 then 0 else Suc (bitlen (n div 2)))"
  by pat_completeness auto
termination
  by (relation "measure nat") auto

declare bitlen.simps [simp del]

text \<open>
  The double nearest to an integer: its 53 leading binary digits, rounded to nearest with
  ties to even; a magnitude of \<open>2 ^ 1024\<close> or more is \<open>Infinity\<close>.
\<close>

definition round_nat :: "int \<Rightarrow> int" where
  "round_nat n =
     (let e = bitlen n - 53
      in if e = 0 then n
         else
           (let m = n div 2 ^ e; r = n mod 2 ^ e
            in (if 2 ^ e < 2 * r \<or> (2 * r = 2 ^ e \<and> odd m) then m + 1 else m) * 2 ^ e))"

definition to_double :: "int \<Rightarrow> int option" where
  "to_double x =
     (let v = round_nat \<bar>x\<bar>
      in if 2 ^ 1024 \<le> v then None
         else Some (if x < 0 then - v else v))"

text \<open>\<open>a - b\<close> and \<open>a * b\<close> on numbers of the runtime.\<close>

definition js_minus :: "int option \<Rightarrow> int \<Rightarrow> int option" where
  "js_minus a b = (case a of None \<Rightarrow> None | Some x \<Rightarrow> to_double (x - b))"

definition js_times :: "int option \<Rightarrow> int option \<Rightarrow> int option" where
  "js_times a b =
     (case (a, b) of (Some x, Some y) \<Rightarrow> to_double (x * y) | _ \<Rightarrow> None)"

definition is_digit :: "char \<Rightarrow> bool" where
  "is_digit c = (48 \<le> (of_char c :: nat) \<and> (of_char c :: nat) \<le> 57)"

definition is_space :: "char \<Rightarrow> bool" where
  "is_space c = ((of_char c :: nat) = 32 \<or> (9 \<le> (of_char c :: nat) \<and> (of_char c :: nat) \<le> 13))"

definition digit_val :: "char \<Rightarrow> nat" where
  "digit_val c = (of_char c :: nat) - 48"

definition is_hex_digit :: "char \<Rightarrow> bool" where
  "is_hex_digit c =
     (is_digit c \<or> (65 \<le> (of_char c :: nat) \<and> (of_char c :: nat) \<le> 70)
                 \<or> (97 \<le> (of_char c :: nat) \<and> (of_char c :: nat) \<le> 102))"

definition hex_val :: "char \<Rightarrow> nat" where
  "hex_val c =
     (if is_digit c then (of_char c :: nat) - 48
      else if (of_char c :: nat) \<le> 70 then (of_char c :: nat) - 55
      else (of_char c :: nat) - 87)"

definition digits_value :: "int \<Rightarrow> (char \<Rightarrow> nat) \<Rightarrow> string \<Rightarrow> int" where
  "digits_value radix val ds = foldl (\<lambda>acc c. acc * radix + int (val c)) 0 ds"

text \<open>
  \<open>parseInt(s)\<close> without a radix: leading white space is skipped, a sign is read, the
  prefix \<open>0x\<close> or \<open>0X\<close> selects base 16, and the longest run of digits is converted
  to the nearest double; no digit at all gives \<open>NaN\<close>.
\<close>

definition parseInt :: "string \<Rightarrow> int option" where
  "parseInt s =
     (let s1 = dropWhile is_space s;
          neg = (case s1 of c # _ \<Rightarrow> c = CHR ''-'' | [] \<Rightarrow> False);
          s2 = (case s1 of c # r \<Rightarrow> (if c = CHR ''-'' \<or> c = CHR ''+'' then r else s1) | [] \<Rightarrow> s1);
          hex = (take 2 s2 = ''0x'' \<or> take 2 s2 = ''0X'');
          ds = (if hex then takeWhile is_hex_digit (drop 2 s2) else takeWhile is_digit s2);
          n = (if hex then digits_value 16 hex_val ds else digits_value 10 digit_val ds)
      in if ds = [] then None
         else to_double (if neg then - n else n))"

text \<open>\<open>q || d\<close> on an optional string: \<open>undefined\<close> and the empty string are falsy.\<close>

definition or_default :: "string option \<Rightarrow> string \<Rightarrow> string" where
  "or_default q d = (case q of None \<Rightarrow> d | Some s \<Rightarrow> (if s = [] then d else s))"

text \<open>
  The integer a string denotes, for the strings the validator's \<open>isInt\<close> admits: an
  optional sign followed by one or more decimal digits.
\<close>

definition int_of_string :: "string \<Rightarrow> int option" where
  "int_of_string s =
     (let neg = (case s of c # _ \<Rightarrow> c = CHR ''-'' | [] \<Rightarrow> False);
          ds = (case s of c # r \<Rightarrow> (if c = CHR ''-'' \<or> c = CHR ''+'' then r else s) | [] \<Rightarrow> s)
      in if ds \<noteq> [] \<and> list_all is_digit ds
         then Some (if neg then - digits_value 10 digit_val ds else digits_value 10 digit_val ds)
         else None)"

section \<open>Validation chains (express-validator)\<close>

text \<open>
  A body field is \<open>None\<close> when the key is absent (\<open>undefined\<close>) and a JSON value
  otherwise. \<open>validationResult\<close> is modelled with one entry for each field whose chain
  fails, carrying the field's path and the chain's message.
\<close>

record validation_error =
  ve_path :: string
  ve_msg :: string

definition isString :: "json option \<Rightarrow> bool" where
  "isString v = (case v of Some (JStr _) \<Rightarrow> True | _ \<Rightarrow> False)"

definition isLength :: "nat \<Rightarrow> nat \<Rightarrow> json option \<Rightarrow> bool" where
  "isLength lo hi v = (case v of Some (JStr s) \<Rightarrow> lo \<le> length s \<and> length s \<le> hi | _ \<Rightarrow> False)"

text \<open>\<open>isInt({ min, max })\<close> on a string: the pattern, then the numeric bounds.\<close>

definition isInt :: "int \<Rightarrow> int option \<Rightarrow> string \<Rightarrow> bool" where
  "isInt lo hi s =
     (case int_of_string s of
        None \<Rightarrow> False
      | Some v \<Rightarrow> lo \<le> v \<and> (case hi of None \<Rightarrow> True | Some h \<Rightarrow> v \<le> h))"

definition check :: "bool \<Rightarrow> string \<Rightarrow> string \<Rightarrow> validation_error list" where
  "check ok path msg = (if ok then [] else [\<lparr> ve_path = path, ve_msg = msg \<rparr>])"

section \<open>The store (migrations/001_initial_schema.sql)\<close>

text \<open>
  Two tables. \<open>applications.id\<close> is a serial primary key, \<open>applications.name\<close> is
  \<open>NOT NULL UNIQUE\<close>, \<open>description\<close> is nullable, and both timestamps default to the
  current time. Time stamps are instants counted as naturals; the current time is an
  argument of every statement that reads it.
\<close>

record application =
  app_id :: int
  app_name :: string
  app_description :: "string option"
  app_created_at :: nat
  app_updated_at :: nat

record configuration =
  cfg_id :: int
  cfg_application_id :: int
  cfg_key :: string
  cfg_value :: "string option"
  cfg_environment :: string
  cfg_created_at :: nat
  cfg_updated_at :: nat

text \<open>A configuration row joined with the name of its application.\<close>

record configuration_with_application = configuration +
  cwa_application_name :: string

record database =
  applications :: "application list"
  configurations :: "configuration list"
  applications_id_seq :: int

text \<open>An error raised by a statement, with its SQLSTATE in \<open>code\<close>.\<close>

datatype pg_error = PgError (code: string)

text \<open>
  The state the constraints of the schema maintain: primary keys and names are pairwise
  distinct, the serial ids start at 1, and the sequence, whose values are 32-bit integers
  (the last one is 2147483647), is ahead of every id it has handed out. A table so holds
  fewer than \<open>2 ^ 31\<close> rows, and a count of its rows is exact as a number of the runtime.
\<close>

definition wf_db :: "database \<Rightarrow> bool" where
  "wf_db db \<longleftrightarrow>
     distinct (map app_id (applications db))
     \<and> distinct (map app_name (applications db))
     \<and> 1 \<le> applications_id_seq db \<and> applications_id_seq db \<le> 2147483648
     \<and> list_all (\<lambda>a. 1 \<le> app_id a \<and> app_id a < applications_id_seq db) (applications db)"

text \<open>The store after the migration: both tables empty, the sequence at its first value.\<close>

definition empty_db :: database where
  "empty_db = \<lparr> applications = [], configurations = [], applications_id_seq = 1 \<rparr>"

text \<open>
  The value bound to a text parameter: \<open>undefined\<close> and \<open>null\<close> are sent as NULL and a
  string as it is. The validation chains let no other value reach a statement.
\<close>

definition text_param :: "json option \<Rightarrow> string option" where
  "text_param v = (case v of Some (JStr s) \<Rightarrow> Some s | _ \<Rightarrow> None)"

text \<open>
  A text parameter that holds the character U+0000 is refused by the store when the
  parameters are bound (22021), before the statement runs.
\<close>

definition has_nul :: "string \<Rightarrow> bool" where
  "has_nul s = (CHR 0x00 \<in> set s)"

definition text_ok :: "string option \<Rightarrow> bool" where
  "text_ok v = (case v of None \<Rightarrow> True | Some s \<Rightarrow> \<not> has_nul s)"

text \<open>
  A string bound to a parameter that is compared with an \<open>INTEGER\<close> column: it must
  denote an integer (22P02 otherwise) of 32 bits (22003 otherwise).
\<close>

definition int4_param :: "string \<Rightarrow> pg_error + int" where
  "int4_param ident =
     (case int_of_string ident of
        None \<Rightarrow> Inl (PgError ''22P02'')
      | Some i \<Rightarrow>
          (if i < - 2147483648 \<or> 2147483647 < i then Inl (PgError ''22003'') else Inr i))"

text \<open>
  A number of the runtime bound to \<open>LIMIT\<close> or \<open>OFFSET\<close>. It is sent in its decimal
  notation: a value that is not finite, or one of \<open>10 ^ 21\<close> or more (written with an
  exponent), is not the text of an integer (22P02), and an integer must have 64 bits
  (22003 otherwise).
\<close>

definition bigint_param :: "int option \<Rightarrow> pg_error + int" where
  "bigint_param v =
     (case v of
        None \<Rightarrow> Inl (PgError ''22P02'')
      | Some x \<Rightarrow>
          (if 10 ^ 21 \<le> \<bar>x\<bar> then Inl (PgError ''22P02'')
           else if x < - (2 ^ 63) \<or> 2 ^ 63 - 1 < x then Inl (PgError ''22003'')
           else Inr x))"

text \<open>
  A text assigned to a \<open>VARCHAR(n)\<close> column: one that is longer is cut to \<open>n\<close>
  characters when only spaces are cut off, and is an error otherwise (22001).
\<close>

definition fit_varchar :: "nat \<Rightarrow> string \<Rightarrow> pg_error + string" where
  "fit_varchar n s =
     (if length s \<le> n then Inr s
      else if list_all (\<lambda>c. c = CHR '' '') (drop n s) then Inr (take n s)
      else Inl (PgError ''22001''))"

definition COALESCE :: "'a option \<Rightarrow> 'a option \<Rightarrow> 'a option" where
  "COALESCE x y = (case x of Some v \<Rightarrow> Some v | None \<Rightarrow> y)"

text \<open>
  \<open>ORDER BY created_at DESC\<close>. The statement fixes the order of two rows only when
  their times differ; rows of equal time come in the order in which the store happens to
  read them. That order is not a function of the table: it is the argument \<open>scan\<close>, some
  rearrangement of the rows, and the rows read are then put in descending order of time.
\<close>

definition order_by_desc :: "('a \<Rightarrow> nat) \<Rightarrow> ('a list \<Rightarrow> 'a list) \<Rightarrow> 'a list \<Rightarrow> 'a list" where
  "order_by_desc k scan rows = sort_key (\<lambda>r. - int (k r)) (scan rows)"

text \<open>
  \<open>LIMIT $1 OFFSET $2\<close> with numbers of the runtime as parameters; a negative limit
  (2201W) or offset (2201X) is an error.
\<close>

definition limit_offset :: "int option \<Rightarrow> int option \<Rightarrow> 'a list \<Rightarrow> pg_error + 'a list" where
  "limit_offset lmt off rows =
     (case bigint_param lmt of
        Inl e \<Rightarrow> Inl e
      | Inr l \<Rightarrow>
          (case bigint_param off of
             Inl e \<Rightarrow> Inl e
           | Inr off' \<Rightarrow>
               (if l < 0 then Inl (PgError ''2201W'')
                else if off' < 0 then Inl (PgError ''2201X'')
                else Inr (take (nat l) (drop (nat off') rows)))))"

text \<open>
  \<open>INSERT INTO applications (name, description) VALUES ($1, $2) RETURNING *\<close>.
  The text parameters are bound first (22021 for U+0000). The id is the next value of
  the sequence (2200H when the sequence has no value left), which is consumed also when
  the insert then fails; a NULL name violates \<open>NOT NULL\<close> (23502), the name must fit
  \<open>VARCHAR(255)\<close>, and a row that repeats a primary key or a name is a unique violation
  (23505).
\<close>

definition insert_application ::
  "nat \<Rightarrow> string option \<Rightarrow> string option \<Rightarrow> database \<Rightarrow> (pg_error + application list) \<times> database" where
  "insert_application now n d db =
     (if \<not> text_ok n \<or> \<not> text_ok d then (Inl (PgError ''22021''), db)
      else if 2147483647 < applications_id_seq db then (Inl (PgError ''2200H''), db)
      else
        (let i = applications_id_seq db;
             db1 = db\<lparr> applications_id_seq := i + 1 \<rparr>
         in case n of
              None \<Rightarrow> (Inl (PgError ''23502''), db1)
            | Some nm \<Rightarrow>
                (case fit_varchar 255 nm of
                   Inl e \<Rightarrow> (Inl e, db1)
                 | Inr nm' \<Rightarrow>
                     (let row = \<lparr> app_id = i, app_name = nm', app_description = d,
                                  app_created_at = now, app_updated_at = now \<rparr>
                      in if distinct (map app_id (applications db @ [row]))
                            \<and> distinct (map app_name (applications db @ [row]))
                         then (Inr [row], db1\<lparr> applications := applications db @ [row] \<rparr>)
                         else (Inl (PgError ''23505''), db1)))))"

text \<open>
  \<open>UPDATE applications SET name = COALESCE($1, name), description = COALESCE($2, description),
  updated_at = CURRENT_TIMESTAMP WHERE id = $3 RETURNING *\<close>. The parameters are bound
  first: a text with U+0000 (22021) and an id that is not a 32-bit integer (22P02, 22003)
  are refused. When no row has the id, no row is returned. Otherwise the new name must
  fit \<open>VARCHAR(255)\<close>, and the names of the table after the statement must still be
  pairwise distinct (23505 otherwise). Nothing is written when the statement fails.
\<close>

definition update_row :: "nat \<Rightarrow> string option \<Rightarrow> string option \<Rightarrow> application \<Rightarrow> application" where
  "update_row now n d a =
     a\<lparr> app_name := (case n of Some nm \<Rightarrow> nm | None \<Rightarrow> app_name a),
        app_description := COALESCE d (app_description a),
        app_updated_at := now \<rparr>"

definition update_application ::
  "nat \<Rightarrow> string option \<Rightarrow> string option \<Rightarrow> string \<Rightarrow> database \<Rightarrow> (pg_error + application list) \<times> database" where
  "update_application now n d ident db =
     (if \<not> text_ok n \<or> \<not> text_ok d then (Inl (PgError ''22021''), db)
      else
        (case int4_param ident of
           Inl e \<Rightarrow> (Inl e, db)
         | Inr i \<Rightarrow>
             (if \<not> list_ex (\<lambda>a. app_id a = i) (applications db) then (Inr [], db)
              else
                (case (case n of None \<Rightarrow> Inr None
                               | Some nm \<Rightarrow> map_sum id Some (fit_varchar 255 nm)) of
                   Inl e \<Rightarrow> (Inl e, db)
                 | Inr n' \<Rightarrow>
                     (let rows = map (\<lambda>a. if app_id a = i then update_row now n' d a else a)
                                   (applications db)
                      in if distinct (map app_name rows)
                         then (Inr (filter (\<lambda>a. app_id a = i) rows), db\<lparr> applications := rows \<rparr>)
                         else (Inl (PgError ''23505''), db))))))"

text \<open>\<open>SELECT * FROM applications ORDER BY created_at DESC LIMIT $1 OFFSET $2\<close>\<close>

definition select_applications_page ::
  "(application list \<Rightarrow> application list) \<Rightarrow> int option \<Rightarrow> int option \<Rightarrow> database
     \<Rightarrow> pg_error + application list" where
  "select_applications_page scan lmt off db =
     limit_offset lmt off (order_by_desc app_created_at scan (applications db))"

text \<open>\<open>SELECT COUNT(*) as total FROM applications\<close>, read back with \<open>parseInt\<close>.\<close>

definition count_applications :: "database \<Rightarrow> int" where
  "count_applications db = int (length (applications db))"

text \<open>A store with three applications, used to evaluate the model.\<close>

definition example_db :: database where
  "example_db =
     \<lparr> applications =
         [ \<lparr> app_id = 1, app_name = ''billing'', app_description = Some ''invoices'',
             app_created_at = 10, app_updated_at = 10 \<rparr>,
           \<lparr> app_id = 2, app_name = ''search'', app_description = None,
             app_created_at = 20, app_updated_at = 25 \<rparr>,
           \<lparr> app_id = 4, app_name = ''mail'', app_description = Some ''smtp'',
             app_created_at = 30, app_updated_at = 30 \<rparr> ],
       configurations =
         [ \<lparr> cfg_id = 1, cfg_application_id = 1, cfg_key = ''currency'', cfg_value = Some ''EUR'',
             cfg_environment = ''dev'', cfg_created_at = 11, cfg_updated_at = 11 \<rparr>,
           \<lparr> cfg_id = 2, cfg_application_id = 1, cfg_key = ''currency'', cfg_value = Some ''USD'',
             cfg_environment = ''prod'', cfg_created_at = 12, cfg_updated_at = 12 \<rparr> ],
       applications_id_seq = 5 \<rparr>"

section \<open>Application routes and controller (routes/applications.ts, ApplicationController.ts)\<close>

record create_application_request =
  car_name :: "json option"
  car_description :: "json option"

record update_application_request =
  uar_id :: string
  uar_name :: "json option"
  uar_description :: "json option"

text \<open>The numbers of the pagination object; \<open>None\<close> is a value that is not a finite number.\<close>

record pagination =
  pg_page :: "int option"
  pg_limit :: "int option"
  pg_total :: int
  pg_totalPages :: "int option"

datatype payload =
    ValidationFailed "validation_error list"
  | ErrorMessage string
  | ApplicationBody application
  | ApplicationPage "application list" pagination
  | ConfigurationPage "configuration_with_application list" pagination

type_synonym reply = "nat \<times> payload"

definition createApplicationValidation :: "create_application_request \<Rightarrow> validation_error list" where
  "createApplicationValidation rq =
     check (isString (car_name rq) \<and> isLength 1 255 (car_name rq))
       ''name'' ''Name must be a string between 1 and 255 characters''
     @ check (car_description rq = None \<or> isString (car_description rq))
       ''description'' ''Description must be a string''"

definition updateApplicationValidation :: "update_application_request \<Rightarrow> validation_error list" where
  "updateApplicationValidation rq =
     check (isInt 1 None (uar_id rq)) ''id'' ''ID must be a positive integer''
     @ check (uar_name rq = None \<or> (isString (uar_name rq) \<and> isLength 1 255 (uar_name rq)))
       ''name'' ''Name must be a string between 1 and 255 characters''
     @ check (uar_description rq = None \<or> isString (uar_description rq))
       ''description'' ''Description must be a string''"

text \<open>\<open>ApplicationController.create\<close>\<close>

definition create :: "nat \<Rightarrow> create_application_request \<Rightarrow> database \<Rightarrow> reply \<times> database" where
  "create now rq db =
     (let errors = createApplicationValidation rq
      in if errors \<noteq> [] then ((400, ValidationFailed errors), db)
         else
           (case insert_application now (text_param (car_name rq)) (text_param (car_description rq)) db of
              (Inr rows, db') \<Rightarrow>
                (case rows of
                   application # _ \<Rightarrow> ((201, ApplicationBody application), db')
                 | [] \<Rightarrow> ((500, ErrorMessage ''Internal server error''), db'))
            | (Inl error, db') \<Rightarrow>
                (if code error = ''23505''
                 then ((409, ErrorMessage ''Application with this name already exists''), db')
                 else ((500, ErrorMessage ''Internal server error''), db'))))"

text \<open>\<open>ApplicationController.update\<close>\<close>

definition update :: "nat \<Rightarrow> update_application_request \<Rightarrow> database \<Rightarrow> reply \<times> database" where
  "update now rq db =
     (let errors = updateApplicationValidation rq
      in if errors \<noteq> [] then ((400, ValidationFailed errors), db)
         else
           (case update_application now (text_param (uar_name rq)) (text_param (uar_description rq))
                   (uar_id rq) db of
              (Inr rows, db') \<Rightarrow>
                (case rows of
                   [] \<Rightarrow> ((404, ErrorMessage ''Application not found''), db')
                 | application # _ \<Rightarrow> ((200, ApplicationBody application), db'))
            | (Inl error, db') \<Rightarrow>
                (if code error = ''23505''
                 then ((409, ErrorMessage ''Application with this name already exists''), db')
                 else ((500, ErrorMessage ''Internal server error''), db'))))"

text \<open>
  \<open>ApplicationController.getAll\<close>; the route carries no validation. \<open>scan\<close> is the
  order in which the store reads the table for this request. \<open>Math.ceil(total / limit)\<close>
  is not a finite number when \<open>limit\<close> is 0, and is then serialised as \<open>null\<close>;
  otherwise the quotient of the doubles, rounded up, is the exact ceiling for every total
  below \<open>2^53\<close> (a well-formed store holds fewer than \<open>2^31\<close> applications).
\<close>

record get_all_query =
  q_page :: "string option"
  q_limit :: "string option"

definition ceil_div :: "int \<Rightarrow> int option \<Rightarrow> int option" where
  "ceil_div n limit =
     (case limit of
        None \<Rightarrow> None
      | Some l \<Rightarrow> (if l = 0 then None else Some (- ((- n) div l))))"

definition getAll ::
  "(application list \<Rightarrow> application list) \<Rightarrow> get_all_query \<Rightarrow> database \<Rightarrow> reply" where
  "getAll scan q db =
     (let page = parseInt (or_default (q_page q) ''1'');
          limit = parseInt (or_default (q_limit q) ''10'');
          offset = js_times (js_minus page 1) limit
      in case select_applications_page scan limit offset db of
           Inl error \<Rightarrow> (500, ErrorMessage ''Internal server error'')
         | Inr rows \<Rightarrow>
             (200, ApplicationPage rows
                \<lparr> pg_page = page, pg_limit = limit, pg_total = count_applications db,
                  pg_totalPages = ceil_div (count_applications db) limit \<rparr>))"

section \<open>Configuration routes and controller (routes/configurations.ts, ConfigurationController.ts)\<close>










section \<open>The create-application form (ui/src/components/CreateAppForm.ts)\<close>

text \<open>
  The form holds an \<open>ApplicationCreate\<close> in \<open>formData\<close> and the per-field messages in
  \<open>validationErrors\<close>. \<open>String.prototype.trim\<close> removes white space at both ends.
\<close>

record form_errors =
  fe_name :: "string option"
  fe_description :: "string option"

datatype loading_state = Idle | Loading | Succeeded | Failed

definition trim :: "string \<Rightarrow> string" where
  "trim s = rev (dropWhile is_space (rev (dropWhile is_space s)))"

text \<open>The character class \<open>[a-zA-Z0-9_\-]\<close> and the pattern \<open>/^[a-zA-Z0-9_\-]+$/\<close>.\<close>

definition name_char :: "char \<Rightarrow> bool" where
  "name_char c =
     ((97 \<le> (of_char c :: nat) \<and> (of_char c :: nat) \<le> 122)
      \<or> (65 \<le> (of_char c :: nat) \<and> (of_char c :: nat) \<le> 90)
      \<or> (48 \<le> (of_char c :: nat) \<and> (of_char c :: nat) \<le> 57)
      \<or> c = CHR ''_'' \<or> c = CHR ''-'')"

definition name_pattern :: "string \<Rightarrow> bool" where
  "name_pattern s = (s \<noteq> [] \<and> list_all name_char s)"

text \<open>
  \<open>validateForm\<close> resets \<open>validationErrors\<close>, fills it, and returns whether it is
  empty; the model returns both.
\<close>

definition validateForm :: "application_create \<Rightarrow> bool \<times> form_errors" where
  "validateForm formData =
     (let name_error =
            (if trim (ac_name formData) = [] then Some ''Application name is required''
             else if \<not> name_pattern (ac_name formData)
             then Some ''Name can only contain letters, numbers, underscores, and hyphens''
             else None);
          description_error =
            (case ac_description formData of
               None \<Rightarrow> None
             | Some d \<Rightarrow>
                 (if d \<noteq> [] \<and> trim d = [] then Some ''Description cannot be empty if provided''
                  else None))
      in (name_error = None \<and> description_error = None,
          \<lparr> fe_name = name_error, fe_description = description_error \<rparr>))"

text \<open>
  \<open>submitForm\<close> up to the call of the API: the request that is sent, if any. Nothing is
  sent while a submission is in flight or when \<open>validateForm\<close> fails.
\<close>

definition submitForm :: "loading_state \<Rightarrow> application_create \<Rightarrow> application_create option" where
  "submitForm loadingState formData =
     (if loadingState = Loading then None
      else if \<not> fst (validateForm formData) then None
      else Some formData)"

section \<open>The client (@config-client/src/client.ts)\<close>

text \<open>
  A value that is thrown or that rejects a promise: an \<open>Error\<close> instance with its
  \<open>name\<close> and \<open>message\<close>, or anything else.
\<close>

datatype thrown = ErrorObject (err_name: string) (err_message: string) | NonError

text \<open>
  What \<open>fetch\<close> gives back: a response, of which the client reads the status and the
  outcome of \<open>response.json()\<close> (the parsed body, or the error the parser throws), or a
  rejection (network failure, abort by the timeout).
\<close>

record response =
  rsp_status :: nat
  rsp_json :: "thrown + json"

datatype fetch_outcome = Resolved response | Rejected thrown

definition ok :: "response \<Rightarrow> bool" where
  "ok r = (200 \<le> rsp_status r \<and> rsp_status r \<le> 299)"

text \<open>
  \<open>ApiResponse<T>\<close>: \<open>{ success: true, data }\<close> or \<open>{ success: false, error }\<close>, where
  \<open>None\<close> is \<open>undefined\<close>.
\<close>

datatype api_response = Success "json option" | Failure "json option"

record request_init =
  ri_method :: string
  ri_body :: "json option"

record config_client =
  baseUrl :: string
  timeout :: nat

record config_client_options =
  opt_baseUrl :: "string option"
  opt_timeout :: "nat option"

definition new_ConfigClient :: "config_client_options \<Rightarrow> config_client" where
  "new_ConfigClient options =
     \<lparr> baseUrl = (case opt_baseUrl options of
                     None \<Rightarrow> ''/api/v1'' | Some u \<Rightarrow> (if u = [] then ''/api/v1'' else u)),
       timeout = (case opt_timeout options of
                     None \<Rightarrow> 30000 | Some t \<Rightarrow> (if t = 0 then 30000 else t)) \<rparr>"

text \<open>\<open>s.includes(sub)\<close>\<close>

fun str_includes :: "string \<Rightarrow> string \<Rightarrow> bool" where
  "str_includes [] sub = (sub = [])"
| "str_includes (c # r) sub = (take (length sub) (c # r) = sub \<or> str_includes r sub)"

text \<open>
  \<open>error.detail\<close> on the parsed error body: the member of an object, \<open>undefined\<close> when
  the object has none or the value is a number, a string, a boolean or an array, and a
  \<open>TypeError\<close> when the value is \<open>null\<close>.
\<close>

definition detail_of :: "json \<Rightarrow> thrown + json option" where
  "detail_of error =
     (case error of
        JObj members \<Rightarrow> Inr (map_of members ''detail'')
      | JNull \<Rightarrow> Inl (ErrorObject ''TypeError'' ''Cannot read properties of null'')
      | _ \<Rightarrow> Inr None)"

text \<open>The body of the \<open>try\<close> block of \<open>request\<close>, \<open>Inl\<close> for what it throws.\<close>

definition request_try :: "fetch_outcome \<Rightarrow> thrown + api_response" where
  "request_try outcome =
     (case outcome of
        Rejected e \<Rightarrow> Inl e
      | Resolved response \<Rightarrow>
          (if \<not> ok response then
             (case rsp_json response of
                Inl e \<Rightarrow> Inl e
              | Inr error \<Rightarrow>
                  (case detail_of error of
                     Inl e \<Rightarrow> Inl e
                   | Inr d \<Rightarrow> Inr (Failure d)))
           else if rsp_status response = 204 then Inr (Success None)
           else
             (case rsp_json response of
                Inl e \<Rightarrow> Inl e
              | Inr data \<Rightarrow> Inr (Success (Some data)))))"

text \<open>The \<open>catch\<close> block.\<close>

definition request_catch :: "thrown \<Rightarrow> api_response" where
  "request_catch error =
     (case error of
        ErrorObject name message \<Rightarrow>
          (if name = ''AbortError'' \<or> str_includes message ''aborted''
           then Failure (Some (JStr (''Request aborted: '' @ message)))
           else Failure (Some (JStr message)))
      | NonError \<Rightarrow> Failure (Some (JStr ''Network error'')))"

text \<open>
  \<open>ConfigClient.request\<close>; \<open>fetch\<close> is the environment, called with the URL and the
  options.
\<close>

definition request ::
  "config_client \<Rightarrow> (string \<Rightarrow> request_init \<Rightarrow> fetch_outcome) \<Rightarrow> string \<Rightarrow> request_init \<Rightarrow> api_response" where
  "request client fetch endpoint options =
     (case request_try (fetch (baseUrl client @ endpoint) options) of
        Inl error \<Rightarrow> request_catch error
      | Inr result \<Rightarrow> result)"

text \<open>
  An argument that a method serialises with \<open>JSON.stringify\<close>: a JSON value, or a value
  of the runtime that has no JSON text (one that holds a \<open>BigInt\<close> or refers to itself),
  for which \<open>JSON.stringify\<close> throws a \<open>TypeError\<close> with the message given.
\<close>

datatype js_value = Plain json | Unserialisable string

definition JSON_stringify :: "js_value \<Rightarrow> thrown + json" where
  "JSON_stringify v =
     (case v of
        Plain j \<Rightarrow> Inr j
      | Unserialisable message \<Rightarrow> Inl (ErrorObject ''TypeError'' message))"

text \<open>
  The public methods. Each is an \<open>async\<close> function: its outcome is the value its promise
  is fulfilled with (\<open>Inr\<close>), or the value the promise is rejected with (\<open>Inl\<close>) when
  the body throws. A method with a body evaluates \<open>JSON.stringify(data)\<close> as an argument
  of the call of \<open>request\<close>, outside the \<open>try\<close> block of \<open>request\<close>.
\<close>

definition GET :: request_init where
  "GET = \<lparr> ri_method = ''GET'', ri_body = None \<rparr>"

definition getHealth ::
  "config_client \<Rightarrow> (string \<Rightarrow> request_init \<Rightarrow> fetch_outcome) \<Rightarrow> thrown + api_response" where
  "getHealth client fetch = Inr (request client fetch ''/health'' GET)"

definition getApplications ::
  "config_client \<Rightarrow> (string \<Rightarrow> request_init \<Rightarrow> fetch_outcome) \<Rightarrow> thrown + api_response" where
  "getApplications client fetch = Inr (request client fetch ''/applications'' GET)"

definition getApplication ::
  "config_client \<Rightarrow> (string \<Rightarrow> request_init \<Rightarrow> fetch_outcome) \<Rightarrow> string
     \<Rightarrow> thrown + api_response" where
  "getApplication client fetch ident = Inr (request client fetch (''/applications/'' @ ident) GET)"

definition createApplication ::
  "config_client \<Rightarrow> (string \<Rightarrow> request_init \<Rightarrow> fetch_outcome) \<Rightarrow> js_value
     \<Rightarrow> thrown + api_response" where
  "createApplication client fetch data =
     (case JSON_stringify data of
        Inl e \<Rightarrow> Inl e
      | Inr body \<Rightarrow>
          Inr (request client fetch ''/applications''
                 \<lparr> ri_method = ''POST'', ri_body = Some body \<rparr>))"

definition deleteApplication ::
  "config_client \<Rightarrow> (string \<Rightarrow> request_init \<Rightarrow> fetch_outcome) \<Rightarrow> string
     \<Rightarrow> thrown + api_response" where
  "deleteApplication client fetch ident =
     Inr (request client fetch (''/applications/'' @ ident)
            \<lparr> ri_method = ''DELETE'', ri_body = None \<rparr>)"

definition getConfiguration ::
  "config_client \<Rightarrow> (string \<Rightarrow> request_init \<Rightarrow> fetch_outcome) \<Rightarrow> string
     \<Rightarrow> thrown + api_response" where
  "getConfiguration client fetch applicationId =
     Inr (request client fetch (''/applications/'' @ applicationId @ ''/config'') GET)"

definition updateConfiguration ::
  "config_client \<Rightarrow> (string \<Rightarrow> request_init \<Rightarrow> fetch_outcome) \<Rightarrow> string \<Rightarrow> js_value
     \<Rightarrow> thrown + api_response" where
  "updateConfiguration client fetch applicationId data =
     (case JSON_stringify data of
        Inl e \<Rightarrow> Inl e
      | Inr body \<Rightarrow>
          Inr (request client fetch (''/applications/'' @ applicationId @ ''/config'')
                 \<lparr> ri_method = ''PUT'', ri_body = Some body \<rparr>))"

definition getConfigByName ::
  "config_client \<Rightarrow> (string \<Rightarrow> request_init \<Rightarrow> fetch_outcome) \<Rightarrow> string
     \<Rightarrow> thrown + api_response" where
  "getConfigByName client fetch appName = Inr (request client fetch (''/config/'' @ appName) GET)"

section \<open>Properties of the mock handlers\<close>

lemma find_splice1_distinct:
  "distinct (map f xs) \<Longrightarrow> findIndex (\<lambda>a. f a = k) xs = Some n \<Longrightarrow>
   find (\<lambda>a. f a = k) (splice1 n xs) = None"
proof (induction xs arbitrary: n)
  case Nil
  then show ?case by simp
next
  case (Cons x xs)
  show ?case
  proof (cases "f x = k")
    case True
    with Cons.prems have n0: "n = 0" by simp
    from Cons.prems have "f x \<notin> f ` set xs" by simp
    with True have "\<forall>a \<in> set xs. f a \<noteq> k" by (auto simp: image_iff)
    then have "find (\<lambda>a. f a = k) xs = None" by (simp add: find_None_iff)
    with n0 show ?thesis by (simp add: splice1_def)
  next
    case False
    with Cons.prems obtain m where m: "findIndex (\<lambda>a. f a = k) xs = Some m" "n = Suc m"
      by (auto split: if_splits)
    from Cons.prems have "distinct (map f xs)" by simp
    from Cons.IH[OF this m(1)] False m(2) show ?thesis
      by (simp add: splice1_def)
  qed
qed

text \<open>
  C1. For every application id and every configuration document, the PUT of the
  configuration stores exactly the supplied document under that id (a following GET
  answers 200 with that document and nothing of the previous one), and applying the same
  PUT again gives the same response and leaves the stored state as it was.
\<close>

theorem put_config_replaces_and_idempotent:
  "mockConfigurations (snd (put_config st i \<lparr> cu_config = JObj doc \<rparr>)) i
     = Some \<lparr> cr_application_id = i, cr_config = JObj doc \<rparr>
   \<and> get_config (snd (put_config st i \<lparr> cu_config = JObj doc \<rparr>)) i
     = (200, PConfiguration \<lparr> cr_application_id = i, cr_config = JObj doc \<rparr>)
   \<and> put_config (snd (put_config st i \<lparr> cu_config = JObj doc \<rparr>)) i \<lparr> cu_config = JObj doc \<rparr>
     = put_config st i \<lparr> cu_config = JObj doc \<rparr>"
  by (simp add: put_config_def get_config_def Let_def)

text \<open>
  C2 (as stated: an unknown application id makes the upsert fail with NotFound and
  create nothing). The mock handler never consults \<open>mockApplications\<close>: for the id
  \<open>no-such-app\<close>, which no application of the initial tables has, the PUT answers 200
  and a configuration record exists afterwards.
\<close>

theorem put_config_unknown_application_counterexample:
  "find (\<lambda>a. ar_id a = ''no-such-app'') (mockApplications mock_init) = None
   \<and> fst (put_config mock_init ''no-such-app'' \<lparr> cu_config = JObj [] \<rparr>)
     = (200, PConfiguration \<lparr> cr_application_id = ''no-such-app'', cr_config = JObj [] \<rparr>)
   \<and> mockConfigurations mock_init ''no-such-app'' = None
   \<and> mockConfigurations (snd (put_config mock_init ''no-such-app'' \<lparr> cu_config = JObj [] \<rparr>))
       ''no-such-app''
     = Some \<lparr> cr_application_id = ''no-such-app'', cr_config = JObj [] \<rparr>"
  by (simp add: put_config_def mock_init_def Let_def)

text \<open>
  C2 (amended). The PUT of a configuration performs no application-existence check:
  also for an id that no entry of \<open>mockApplications\<close> carries it answers 200 with the
  record built from the path id and the body, and stores that record; the application
  table is left as it was.
\<close>

theorem put_config_no_existence_check:
  "find (\<lambda>a. ar_id a = i) (mockApplications st) = None \<Longrightarrow>
   fst (put_config st i d) = (200, PConfiguration \<lparr> cr_application_id = i, cr_config = cu_config d \<rparr>)
   \<and> mockConfigurations (snd (put_config st i d)) i
     = Some \<lparr> cr_application_id = i, cr_config = cu_config d \<rparr>
   \<and> mockApplications (snd (put_config st i d)) = mockApplications st"
  by (simp add: put_config_def Let_def)

theorem put_config_no_existence_check_witness:
  "find (\<lambda>a. ar_id a = ''X'') (mockApplications mock_init) = None
   \<and> fst (put_config mock_init ''X'' \<lparr> cu_config = JObj [(''k'', JNum 1)] \<rparr>)
     = (200, PConfiguration \<lparr> cr_application_id = ''X'', cr_config = JObj [(''k'', JNum 1)] \<rparr>)
   \<and> mockConfigurations (snd (put_config mock_init ''X'' \<lparr> cu_config = JObj [(''k'', JNum 1)] \<rparr>)) ''X''
     = Some \<lparr> cr_application_id = ''X'', cr_config = JObj [(''k'', JNum 1)] \<rparr>
   \<and> mockApplications (snd (put_config mock_init ''X'' \<lparr> cu_config = JObj [(''k'', JNum 1)] \<rparr>))
     = mockApplications mock_init"
proof -
  have h: "find (\<lambda>a. ar_id a = ''X'') (mockApplications mock_init) = None"
    by (simp add: mock_init_def)
  from put_config_no_existence_check [OF h, of "\<lparr> cu_config = JObj [(''k'', JNum 1)] \<rparr>"] h
  show ?thesis by simp
qed

text \<open>
  C6 (as stated: after a successful DELETE the application's configuration is unreachable
  and every stored configuration references an existing application). In the mock, deleting
  the first application of the initial tables answers 204 and a GET of the application
  then answers 404, but the GET of its configuration still answers 200 with the stored
  document: \<open>mockConfigurations\<close> is not touched by the DELETE handler.
\<close>

theorem delete_application_no_cascade_counterexample:
  "fst (delete_application mock_init ''01ARZ3NDEKTSV4RRFFQ69G5FAV'') = (204, PEmpty)
   \<and> get_application (snd (delete_application mock_init ''01ARZ3NDEKTSV4RRFFQ69G5FAV''))
        ''01ARZ3NDEKTSV4RRFFQ69G5FAV''
     = (404, PDetail ''Application not found'')
   \<and> get_config (snd (delete_application mock_init ''01ARZ3NDEKTSV4RRFFQ69G5FAV''))
        ''01ARZ3NDEKTSV4RRFFQ69G5FAV''
     = (200, PConfiguration \<lparr> cr_application_id = ''01ARZ3NDEKTSV4RRFFQ69G5FAV'',
          cr_config = JObj [(''theme'', JStr ''dark''), (''timeout'', JNum 30)] \<rparr>)"
  by (simp add: delete_application_def get_application_def get_config_def mock_init_def
      splice1_def)

text \<open>
  C6 (amended). In the mock handlers, where the ids of \<open>mockApplications\<close> are pairwise
  distinct, a DELETE that answers 204 removes the application, so that a following GET of
  it answers 404 (Application not found); the DELETE leaves \<open>mockConfigurations\<close>
  unchanged, so the GET of the configuration answers after the DELETE what it answered
  before. No cascade is performed by the handlers.
\<close>

theorem delete_application_then_get:
  assumes "distinct (map ar_id (mockApplications st))"
    and "fst (delete_application st i) = (204, PEmpty)"
  shows "get_application (snd (delete_application st i)) i = (404, PDetail ''Application not found'')
    \<and> mockConfigurations (snd (delete_application st i)) = mockConfigurations st
    \<and> get_config (snd (delete_application st i)) i = get_config st i"
proof -
  from assms(2) obtain n where n: "findIndex (\<lambda>a. ar_id a = i) (mockApplications st) = Some n"
    by (auto simp: delete_application_def split: option.splits)
  from find_splice1_distinct [OF assms(1) n]
  have "find (\<lambda>a. ar_id a = i) (splice1 n (mockApplications st)) = None" .
  with n show ?thesis
    by (simp add: delete_application_def get_application_def get_config_def)
qed

theorem delete_application_then_get_witness:
  "distinct (map ar_id (mockApplications mock_init))
   \<and> fst (delete_application mock_init ''01ARZ3NDEKTSV4RRFFQ69G5FB0'') = (204, PEmpty)
   \<and> get_application (snd (delete_application mock_init ''01ARZ3NDEKTSV4RRFFQ69G5FB0''))
        ''01ARZ3NDEKTSV4RRFFQ69G5FB0'' = (404, PDetail ''Application not found'')
   \<and> mockConfigurations (snd (delete_application mock_init ''01ARZ3NDEKTSV4RRFFQ69G5FB0''))
     = mockConfigurations mock_init
   \<and> get_config (snd (delete_application mock_init ''01ARZ3NDEKTSV4RRFFQ69G5FB0''))
        ''01ARZ3NDEKTSV4RRFFQ69G5FB0''
     = get_config mock_init ''01ARZ3NDEKTSV4RRFFQ69G5FB0''"
proof -
  have d: "distinct (map ar_id (mockApplications mock_init))"
    by (simp add: mock_init_def)
  have r: "fst (delete_application mock_init ''01ARZ3NDEKTSV4RRFFQ69G5FB0'') = (204, PEmpty)"
    by (simp add: delete_application_def mock_init_def)
  from delete_application_then_get [OF d r] d r show ?thesis by simp
qed
section \<open>Properties of the application controller\<close>

text \<open>
  Numbers of the runtime: an integer of at most 53 bits is a double, so that the
  arithmetic of the controllers is exact up to \<open>2^53\<close>.
\<close>

lemma bitlen_le: "n < 2 ^ k \<Longrightarrow> bitlen n \<le> k"
proof (induction k arbitrary: n)
  case 0
  then show ?case by (simp add: bitlen.simps)
next
  case (Suc k)
  show ?case
  proof (cases "n \<le> 0")
    case True
    then show ?thesis by (simp add: bitlen.simps)
  next
    case False
    from Suc.prems have "n div 2 < 2 ^ k" by simp
    then have "bitlen (n div 2) \<le> k" by (rule Suc.IH)
    with False show ?thesis by (subst bitlen.simps) simp
  qed
qed

lemma round_nat_small: "n < 2 ^ 53 \<Longrightarrow> round_nat n = n"
  using bitlen_le [of n 53] by (simp add: round_nat_def)

lemma round_nat_2_53: "round_nat (2 ^ 53) = 2 ^ 53"
  by code_simp

lemma to_double_exact:
  assumes "\<bar>x\<bar> \<le> 2 ^ 53"
  shows "to_double x = Some x"
proof -
  have r: "round_nat \<bar>x\<bar> = \<bar>x\<bar>"
  proof (cases "\<bar>x\<bar> = 2 ^ 53")
    case True
    then show ?thesis by (simp only: round_nat_2_53)
  next
    case False
    with assms have "\<bar>x\<bar> < 2 ^ 53" by simp
    then show ?thesis by (rule round_nat_small)
  qed
  have "(2::int) ^ 53 < 2 ^ 1024" by simp
  with assms have "\<not> 2 ^ 1024 \<le> \<bar>x\<bar>" by linarith
  with r show ?thesis
    by (auto simp: to_double_def Let_def)
qed

lemma check_Nil_iff: "check b p m = [] \<longleftrightarrow> b"
  by (simp add: check_def)

lemma createApplicationValidation_Nil_iff:
  "createApplicationValidation rq = [] \<longleftrightarrow>
     (\<exists>s. car_name rq = Some (JStr s) \<and> 1 \<le> length s \<and> length s \<le> 255)
     \<and> (car_description rq = None \<or> (\<exists>d. car_description rq = Some (JStr d)))"
  by (auto simp: createApplicationValidation_def check_Nil_iff isString_def isLength_def
      split: option.splits json.splits)

lemma updateApplicationValidation_Nil_iff:
  "updateApplicationValidation rq = [] \<longleftrightarrow>
     isInt 1 None (uar_id rq)
     \<and> (uar_name rq = None \<or> (\<exists>s. uar_name rq = Some (JStr s) \<and> 1 \<le> length s \<and> length s \<le> 255))
     \<and> (uar_description rq = None \<or> (\<exists>d. uar_description rq = Some (JStr d)))"
  by (auto simp: updateApplicationValidation_def check_Nil_iff isString_def isLength_def
      split: option.splits json.splits)

lemma find_Some_filter:
  "find P xs = Some a \<Longrightarrow> \<exists>ys. filter P xs = a # ys"
  by (induction xs) (auto split: if_splits)


lemma find_Some_mem: "find P xs = Some a \<Longrightarrow> a \<in> set xs \<and> P a"
  by (induction xs) (auto split: if_splits)

lemma find_map_key:
  assumes "\<And>x. k (f x) = k x"
  shows "find (\<lambda>a. k a = i) (map f xs) = map_option f (find (\<lambda>a. k a = i) xs)"
  by (induction xs) (simp_all add: assms)

lemma filter_map_key:
  assumes "\<And>x. k (f x) = k x"
  shows "filter (\<lambda>a. k a = i) (map f xs) = map f (filter (\<lambda>a. k a = i) xs)"
  by (induction xs) (simp_all add: assms)

lemma app_id_update_row [simp]: "app_id (update_row now n d a) = app_id a"
  by (simp add: update_row_def)

lemma names_after_update:
  assumes ids: "distinct (map app_id xs)" and names: "distinct (map app_name xs)"
    and a: "a \<in> set xs" "app_id a = i"
  shows "distinct (map app_name (map (\<lambda>b. if app_id b = i then u b else b) xs))
         \<longleftrightarrow> \<not> (\<exists>b \<in> set xs. app_id b \<noteq> i \<and> app_name b = app_name (u a))"
proof -
  let ?g = "\<lambda>b. if app_id b = i then app_name (u b) else app_name b"
  have m: "map app_name (map (\<lambda>b. if app_id b = i then u b else b) xs) = map ?g xs"
    by (induction xs) auto
  from ids have dx: "distinct xs" and inj_id: "inj_on app_id (set xs)"
    by (auto simp: distinct_map)
  from names have inj_nm: "inj_on app_name (set xs)"
    by (auto simp: distinct_map)
  have only_a: "\<And>x. x \<in> set xs \<Longrightarrow> app_id x = i \<Longrightarrow> x = a"
    using inj_id a by (auto dest: inj_onD)
  show ?thesis
  proof
    assume d: "distinct (map app_name (map (\<lambda>b. if app_id b = i then u b else b) xs))"
    then have "distinct (map ?g xs)" by (simp only: m)
    then have inj: "inj_on ?g (set xs)" by (simp add: distinct_map)
    show "\<not> (\<exists>b \<in> set xs. app_id b \<noteq> i \<and> app_name b = app_name (u a))"
    proof
      assume "\<exists>b \<in> set xs. app_id b \<noteq> i \<and> app_name b = app_name (u a)"
      then obtain b where b: "b \<in> set xs" "app_id b \<noteq> i" "app_name b = app_name (u a)" by blast
      then have "?g b = ?g a" using a by simp
      with inj b(1) a(1) have "b = a" by (auto dest: inj_onD)
      with b(2) a(2) show False by simp
    qed
  next
    assume no: "\<not> (\<exists>b \<in> set xs. app_id b \<noteq> i \<and> app_name b = app_name (u a))"
    have "inj_on ?g (set xs)"
    proof (rule inj_onI)
      fix x y assume x: "x \<in> set xs" and y: "y \<in> set xs" and e: "?g x = ?g y"
      show "x = y"
      proof (cases "app_id x = i")
        case True
        then have xa: "x = a" using x only_a by blast
        show ?thesis
        proof (cases "app_id y = i")
          case True then show ?thesis using y only_a xa by blast
        next
          case False
          with e xa a have "app_name y = app_name (u a)" by simp
          with no y False show ?thesis by blast
        qed
      next
        case False
        show ?thesis
        proof (cases "app_id y = i")
          case True
          then have ya: "y = a" using y only_a by blast
          with e False a have "app_name x = app_name (u a)" by simp
          with no x False show ?thesis by blast
        next
          case yf: False
          with e False have "app_name x = app_name y" by simp
          with inj_nm x y show ?thesis by (auto dest: inj_onD)
        qed
      qed
    qed
    with dx have "distinct (map ?g xs)" by (simp add: distinct_map)
    then show "distinct (map app_name (map (\<lambda>b. if app_id b = i then u b else b) xs))"
      by (simp only: m)
  qed
qed

lemma wf_db_id_range:
  "wf_db db \<Longrightarrow> a \<in> set (applications db) \<Longrightarrow> 1 \<le> app_id a \<and> app_id a \<le> 2147483647"
  by (auto simp: wf_db_def list_all_iff)

lemma int4_param_stored:
  assumes "wf_db db" "int_of_string s = Some i" "find (\<lambda>a. app_id a = i) (applications db) = Some a"
  shows "int4_param s = Inr i"
proof -
  from assms(3) have "a \<in> set (applications db)" "app_id a = i"
    using find_Some_mem by fastforce+
  with wf_db_id_range [OF assms(1)] have "1 \<le> i \<and> i \<le> 2147483647" by blast
  with assms(2) show ?thesis by (simp add: int4_param_def)
qed

lemma fit_varchar_short: "length s \<le> n \<Longrightarrow> fit_varchar n s = Inr s"
  by (simp add: fit_varchar_def)

lemma valid_name_fits:
  assumes "updateApplicationValidation rq = []"
  shows "(case text_param (uar_name rq) of None \<Rightarrow> Inr None
          | Some nm \<Rightarrow> map_sum id Some (fit_varchar 255 nm)) = Inr (text_param (uar_name rq))"
  using assms
  by (auto simp: updateApplicationValidation_Nil_iff text_param_def fit_varchar_short)

text \<open>The reply and the new state of an update that addresses a stored row.\<close>

lemma update_existing:
  assumes wf: "wf_db db" and valid: "updateApplicationValidation rq = []"
    and texts: "text_ok (text_param (uar_name rq))" "text_ok (text_param (uar_description rq))"
    and idv: "int_of_string (uar_id rq) = Some i"
    and found: "find (\<lambda>a. app_id a = i) (applications db) = Some a"
  shows "update now rq db =
     (let a' = update_row now (text_param (uar_name rq)) (text_param (uar_description rq)) a
      in if \<exists>b \<in> set (applications db). app_id b \<noteq> i \<and> app_name b = app_name a'
         then ((409, ErrorMessage ''Application with this name already exists''), db)
         else ((200, ApplicationBody a'),
               db\<lparr> applications := map (\<lambda>b. if app_id b = i then a' else b) (applications db) \<rparr>))"
proof -
  let ?u = "update_row now (text_param (uar_name rq)) (text_param (uar_description rq))"
  let ?rows = "map (\<lambda>b. if app_id b = i then ?u b else b) (applications db)"
  from found have a: "a \<in> set (applications db)" "app_id a = i"
    using find_Some_mem by fastforce+
  then have ex: "list_ex (\<lambda>a. app_id a = i) (applications db)"
    by (auto simp: list_ex_iff)
  note i4 = int4_param_stored [OF wf idv found]
  note fits = valid_name_fits [OF valid]
  from wf have ids: "distinct (map app_id (applications db))"
    and names: "distinct (map app_name (applications db))"
    by (simp_all add: wf_db_def)
  from ids have inj_id: "inj_on app_id (set (applications db))" by (simp add: distinct_map)
  have only_a: "\<And>x. x \<in> set (applications db) \<Longrightarrow> app_id x = i \<Longrightarrow> x = a"
    using inj_id a by (auto dest: inj_onD)
  have rows_eq: "?rows = map (\<lambda>b. if app_id b = i then ?u a else b) (applications db)"
    using only_a by (auto intro!: map_cong)
  have d: "distinct (map app_name ?rows)
      \<longleftrightarrow> \<not> (\<exists>b \<in> set (applications db). app_id b \<noteq> i \<and> app_name b = app_name (?u a))"
    by (rule names_after_update [OF ids names a])
  have "filter (\<lambda>a. app_id a = i) ?rows
      = map (\<lambda>b. if app_id b = i then ?u b else b) (filter (\<lambda>a. app_id a = i) (applications db))"
    by (rule filter_map_key) simp
  moreover from find_Some_filter [OF found] obtain ys
    where "filter (\<lambda>a. app_id a = i) (applications db) = a # ys" by blast
  ultimately obtain zs where f: "filter (\<lambda>a. app_id a = i) ?rows = ?u a # zs"
    using a by auto
  show ?thesis
  proof (cases "\<exists>b \<in> set (applications db). app_id b \<noteq> i \<and> app_name b = app_name (?u a)")
    case True
    with d have "\<not> distinct (map app_name ?rows)" by simp
    then have "update_application now (text_param (uar_name rq)) (text_param (uar_description rq))
        (uar_id rq) db = (Inl (PgError ''23505''), db)"
      using texts i4 ex fits by (simp add: update_application_def Let_def)
    with True valid show ?thesis
      by (simp add: update_def Let_def)
  next
    case False
    with d have "distinct (map app_name ?rows)" by simp
    then have "update_application now (text_param (uar_name rq)) (text_param (uar_description rq))
        (uar_id rq) db = (Inr (?u a # zs), db\<lparr> applications := ?rows \<rparr>)"
      using texts i4 ex fits f by (simp add: update_application_def Let_def)
    with False valid show ?thesis
      by (simp add: update_def Let_def rows_eq)
  qed
qed

lemma update_refused_text:
  assumes valid: "updateApplicationValidation rq = []"
    and nul: "\<not> text_ok (text_param (uar_name rq)) \<or> \<not> text_ok (text_param (uar_description rq))"
  shows "update now rq db = ((500, ErrorMessage ''Internal server error''), db)"
  using assms by (auto simp: update_def update_application_def Let_def)

lemma wf_example_db: "wf_db example_db"
  by (simp add: wf_db_def example_db_def)

text \<open>
  The well-formedness of the store holds after the migration and is kept by every request
  to \<open>create\<close> and \<open>update\<close>, whatever its outcome.
\<close>

lemma wf_empty_db: "wf_db empty_db"
  by (simp add: wf_db_def empty_db_def)

lemma insert_application_cases:
  "snd (insert_application now n d db) = db
   \<or> (applications_id_seq db \<le> 2147483647
      \<and> snd (insert_application now n d db) = db\<lparr> applications_id_seq := applications_id_seq db + 1 \<rparr>)
   \<or> (\<exists>row. applications_id_seq db \<le> 2147483647 \<and> app_id row = applications_id_seq db
        \<and> distinct (map app_id (applications db @ [row]))
        \<and> distinct (map app_name (applications db @ [row]))
        \<and> snd (insert_application now n d db)
          = db\<lparr> applications_id_seq := applications_id_seq db + 1,
                applications := applications db @ [row] \<rparr>)"
proof (cases "\<not> text_ok n \<or> \<not> text_ok d \<or> 2147483647 < applications_id_seq db")
  case True
  then have "snd (insert_application now n d db) = db"
    by (auto simp: insert_application_def)
  then show ?thesis by blast
next
  case False
  then have seq: "applications_id_seq db \<le> 2147483647" by simp
  show ?thesis
  proof (cases n)
    case None
    with False seq show ?thesis by (simp add: insert_application_def Let_def)
  next
    case (Some nm)
    show ?thesis
    proof (cases "fit_varchar 255 nm")
      case (Inl e)
      with False Some seq show ?thesis by (simp add: insert_application_def Let_def)
    next
      case (Inr nm')
      let ?row = "\<lparr> app_id = applications_id_seq db, app_name = nm', app_description = d,
                     app_created_at = now, app_updated_at = now \<rparr>"
      show ?thesis
      proof (cases "distinct (map app_id (applications db @ [?row]))
                    \<and> distinct (map app_name (applications db @ [?row]))")
        case True
        with False Some Inr have "snd (insert_application now n d db)
          = db\<lparr> applications_id_seq := applications_id_seq db + 1,
                applications := applications db @ [?row] \<rparr>"
          by (simp add: insert_application_def Let_def)
        with True seq show ?thesis by (intro disjI2 exI [of _ ?row]) simp
      next
        case nd: False
        with False Some Inr have "snd (insert_application now n d db)
          = db\<lparr> applications_id_seq := applications_id_seq db + 1 \<rparr>"
          by (simp add: insert_application_def Let_def)
        with seq show ?thesis by blast
      qed
    qed
  qed
qed

lemma snd_create:
  "snd (create now rq db) = db
   \<or> snd (create now rq db)
      = snd (insert_application now (text_param (car_name rq)) (text_param (car_description rq)) db)"
  by (simp add: create_def Let_def split: prod.splits sum.splits list.splits)

lemma wf_db_create: "wf_db db \<Longrightarrow> wf_db (snd (create now rq db))"
proof -
  assume wf: "wf_db db"
  let ?ins = "snd (insert_application now (text_param (car_name rq)) (text_param (car_description rq)) db)"
  have "wf_db ?ins"
    using insert_application_cases [of now "text_param (car_name rq)" "text_param (car_description rq)" db]
  proof (elim disjE exE conjE)
    assume "?ins = db"
    with wf show ?thesis by simp
  next
    assume "applications_id_seq db \<le> 2147483647"
      "?ins = db\<lparr> applications_id_seq := applications_id_seq db + 1 \<rparr>"
    with wf show ?thesis by (auto simp: wf_db_def list_all_iff)
  next
    fix row
    assume "applications_id_seq db \<le> 2147483647" "app_id row = applications_id_seq db"
      "distinct (map app_id (applications db @ [row]))"
      "distinct (map app_name (applications db @ [row]))"
      "?ins = db\<lparr> applications_id_seq := applications_id_seq db + 1,
                applications := applications db @ [row] \<rparr>"
    with wf show ?thesis by (auto simp: wf_db_def list_all_iff)
  qed
  with wf snd_create [of now rq db] show ?thesis by auto
qed

lemma map_app_id_update:
  "map app_id (map (\<lambda>a. if app_id a = i then update_row now n d a else a) xs) = map app_id xs"
  by (induction xs) simp_all

lemma set_update_ids:
  "x \<in> set (map (\<lambda>a. if app_id a = i then update_row now n d a else a) xs)
   \<Longrightarrow> app_id x \<in> app_id ` set xs"
  by (induction xs) (auto split: if_splits)

lemma update_application_cases:
  "snd (update_application now n d ident db) = db
   \<or> (\<exists>i n'. (n = None \<longrightarrow> n' = None)
         \<and> distinct (map app_name (map (\<lambda>a. if app_id a = i then update_row now n' d a else a)
               (applications db)))
         \<and> snd (update_application now n d ident db)
           = db\<lparr> applications := map (\<lambda>a. if app_id a = i then update_row now n' d a else a)
                 (applications db) \<rparr>)"
proof (cases "\<not> text_ok n \<or> \<not> text_ok d")
  case True
  then show ?thesis by (auto simp: update_application_def)
next
  case ok: False
  show ?thesis
  proof (cases "int4_param ident")
    case (Inl e)
    with ok show ?thesis by (simp add: update_application_def)
  next
    case (Inr i)
    show ?thesis
    proof (cases "list_ex (\<lambda>a. app_id a = i) (applications db)")
      case False
      with ok Inr show ?thesis by (simp add: update_application_def)
    next
      case True
      show ?thesis
      proof (cases "case n of None \<Rightarrow> Inr None | Some nm \<Rightarrow> map_sum id Some (fit_varchar 255 nm)")
        case (Inl e)
        with ok \<open>int4_param ident = Inr i\<close> True show ?thesis
          by (simp add: update_application_def)
      next
        case n': (Inr n')
        then have nn: "n = None \<longrightarrow> n' = None" by auto
        let ?rows = "map (\<lambda>a. if app_id a = i then update_row now n' d a else a) (applications db)"
        show ?thesis
        proof (cases "distinct (map app_name ?rows)")
          case False
          with ok \<open>int4_param ident = Inr i\<close> True n' show ?thesis
            by (simp add: update_application_def Let_def)
        next
          case d: True
          with ok \<open>int4_param ident = Inr i\<close> True n'
          have "snd (update_application now n d ident db) = db\<lparr> applications := ?rows \<rparr>"
            by (simp add: update_application_def Let_def)
          with nn d show ?thesis by blast
        qed
      qed
    qed
  qed
qed

lemma snd_update:
  "snd (update now rq db) = db
   \<or> snd (update now rq db)
      = snd (update_application now (text_param (uar_name rq)) (text_param (uar_description rq))
               (uar_id rq) db)"
  by (simp add: update_def Let_def split: prod.splits sum.splits list.splits)

lemma update_applications_cases:
  "applications (snd (update now rq db)) = applications db
     \<and> applications_id_seq (snd (update now rq db)) = applications_id_seq db
   \<or> (\<exists>i n'. (uar_name rq = None \<longrightarrow> n' = None)
         \<and> distinct (map app_name (map (\<lambda>a. if app_id a = i
                      then update_row now n' (text_param (uar_description rq)) a
                      else a) (applications db)))
         \<and> snd (update now rq db)
           = db\<lparr> applications := map (\<lambda>a. if app_id a = i
                      then update_row now n' (text_param (uar_description rq)) a
                      else a) (applications db) \<rparr>)"
proof -
  let ?upd = "snd (update_application now (text_param (uar_name rq)) (text_param (uar_description rq))
               (uar_id rq) db)"
  from snd_update [of now rq db] show ?thesis
  proof
    assume "snd (update now rq db) = db"
    then show ?thesis by simp
  next
    assume u: "snd (update now rq db) = ?upd"
    from update_application_cases [of now "text_param (uar_name rq)" "text_param (uar_description rq)" "uar_id rq" db]
    show ?thesis
    proof (elim disjE exE conjE)
      assume "?upd = db"
      with u show ?thesis by simp
    next
      fix i n'
      assume nn: "text_param (uar_name rq) = None \<longrightarrow> n' = None"
        and d: "distinct (map app_name (map (\<lambda>a. if app_id a = i
                      then update_row now n' (text_param (uar_description rq)) a
                      else a) (applications db)))"
        and e: "?upd = db\<lparr> applications := map (\<lambda>a. if app_id a = i
                      then update_row now n' (text_param (uar_description rq)) a
                      else a) (applications db) \<rparr>"
      from nn have "uar_name rq = None \<longrightarrow> n' = None" by (simp add: text_param_def)
      with d e u show ?thesis by (intro disjI2 exI [of _ i] exI [of _ n'] conjI) simp_all
    qed
  qed
qed

lemma wf_db_update: "wf_db db \<Longrightarrow> wf_db (snd (update now rq db))"
proof -
  assume wf: "wf_db db"
  from update_applications_cases [of now rq db] show ?thesis
  proof (elim disjE exE conjE)
    assume "applications (snd (update now rq db)) = applications db"
      "applications_id_seq (snd (update now rq db)) = applications_id_seq db"
    with wf show ?thesis by (simp add: wf_db_def)
  next
    fix i n'
    let ?rows = "map (\<lambda>a. if app_id a = i
                  then update_row now n' (text_param (uar_description rq)) a
                  else a) (applications db)"
    assume d: "distinct (map app_name ?rows)"
      and e: "snd (update now rq db) = db\<lparr> applications := ?rows \<rparr>"
    have "map app_id ?rows = map app_id (applications db)"
      by (rule map_app_id_update)
    with wf have ids: "distinct (map app_id ?rows)"
      by (simp only: wf_db_def)
    have bounds: "list_all (\<lambda>a. 1 \<le> app_id a \<and> app_id a < applications_id_seq db) ?rows"
      unfolding list_all_iff
    proof
      fix x assume "x \<in> set ?rows"
      then have "app_id x \<in> app_id ` set (applications db)" by (rule set_update_ids)
      with wf show "1 \<le> app_id x \<and> app_id x < applications_id_seq db"
        by (auto simp: wf_db_def list_all_iff)
    qed
    from wf have "1 \<le> applications_id_seq db \<and> applications_id_seq db \<le> 2147483648"
      by (simp add: wf_db_def)
    with ids d bounds show ?thesis
      unfolding e wf_db_def by simp
  qed
qed

lemma update_frame:
  assumes found: "find (\<lambda>x. app_id x = j) (applications db) = Some y"
  shows "\<exists>y'. find (\<lambda>x. app_id x = j) (applications (snd (update now rq db))) = Some y'
     \<and> (uar_name rq = None \<longrightarrow> app_name y' = app_name y)
     \<and> (uar_description rq = None \<longrightarrow> app_description y' = app_description y)
     \<and> (app_description y \<noteq> None \<longrightarrow> app_description y' \<noteq> None)"
  using update_applications_cases [of now rq db]
proof (elim disjE exE conjE)
  assume "applications (snd (update now rq db)) = applications db"
  with found show ?thesis by simp
next
  fix k n'
  let ?f = "\<lambda>a. if app_id a = k
                  then update_row now n' (text_param (uar_description rq)) a
                  else a"
  assume nn: "uar_name rq = None \<longrightarrow> n' = None"
    and e: "snd (update now rq db) = db\<lparr> applications := map ?f (applications db) \<rparr>"
  have "find (\<lambda>x. app_id x = j) (map ?f (applications db))
        = map_option ?f (find (\<lambda>x. app_id x = j) (applications db))"
    by (rule find_map_key) simp
  with found e have 1: "find (\<lambda>x. app_id x = j) (applications (snd (update now rq db))) = Some (?f y)"
    by simp
  from nn have 2: "uar_name rq = None \<longrightarrow> app_name (?f y) = app_name y"
    by (simp add: update_row_def)
  have 3: "uar_description rq = None \<longrightarrow> app_description (?f y) = app_description y"
    by (simp add: update_row_def text_param_def COALESCE_def)
  have 4: "app_description y \<noteq> None \<longrightarrow> app_description (?f y) \<noteq> None"
    by (auto simp: update_row_def COALESCE_def split: option.splits)
  from 1 2 3 4 show ?thesis by (intro exI [of _ "?f y"] conjI)
qed

lemma isInt_of_value: "int_of_string s = Some i \<Longrightarrow> lo \<le> i \<Longrightarrow> isInt lo None s"
  by (simp add: isInt_def)

text \<open>
  C3 (as stated: for every existing application and every partial update only the
  supplied fields change, and a rename to a name that another application has yields
  Conflict). A request that renames application 2 to \<open>mail\<close>, the name of
  application 4, and carries a description with the character U+0000 passes the route's
  validation; the store refuses the description when the parameters of the statement are
  bound, and the reply is 500 (Internal server error), not 409.
\<close>

theorem update_rename_with_nul_counterexample:
  "updateApplicationValidation
      \<lparr> uar_id = ''2'', uar_name = Some (JStr ''mail''),
        uar_description = Some (JStr [CHR ''a'', CHR 0x00, CHR ''b'']) \<rparr> = []
   \<and> find (\<lambda>a. app_id a = 2) (applications example_db)
       = Some \<lparr> app_id = 2, app_name = ''search'', app_description = None,
                app_created_at = 20, app_updated_at = 25 \<rparr>
   \<and> find (\<lambda>a. app_id a \<noteq> 2 \<and> app_name a = ''mail'') (applications example_db)
       = Some \<lparr> app_id = 4, app_name = ''mail'', app_description = Some ''smtp'',
                app_created_at = 30, app_updated_at = 30 \<rparr>
   \<and> update 40
        \<lparr> uar_id = ''2'', uar_name = Some (JStr ''mail''),
          uar_description = Some (JStr [CHR ''a'', CHR 0x00, CHR ''b'']) \<rparr> example_db
       = ((500, ErrorMessage ''Internal server error''), example_db)"
  by (simp add: update_def update_application_def updateApplicationValidation_def check_def
      isInt_def isString_def isLength_def int_of_string_def digits_value_def digit_val_def
      is_digit_def text_param_def text_ok_def has_nul_def example_db_def)

text \<open>
  C3 (amended). In a well-formed store, for an update request that addresses a stored
  application: whatever the outcome of the request, the application is stored
  afterwards with its previous name
  when the request carries no \<open>name\<close>, and with its previous description when it
  carries no \<open>description\<close>. When the request passes the route's validation and none
  of its texts holds the character U+0000: with only \<open>name\<close> supplied (and not used by
  another application) the reply is 200 with the row whose name is the new one and whose
  description is the previous one; with only \<open>description\<close> supplied the reply is 200
  with the previous name and the new description; and a name that another application
  already has gives 409 and leaves the store as it was. In the successful cases exactly
  the addressed row is replaced, and \<open>updated_at\<close> is set to the current time. When the
  request passes the validation and its name or its description holds U+0000, the reply
  is 500 and the store is as it was.
\<close>

theorem update_changes_only_supplied_fields:
  assumes wf: "wf_db db"
    and idv: "int_of_string (uar_id rq) = Some i"
    and found: "find (\<lambda>a. app_id a = i) (applications db) = Some a"
  shows
    "(\<exists>a'. find (\<lambda>x. app_id x = i) (applications (snd (update now rq db))) = Some a'
         \<and> (uar_name rq = None \<longrightarrow> app_name a' = app_name a)
         \<and> (uar_description rq = None \<longrightarrow> app_description a' = app_description a))
     \<and> (updateApplicationValidation rq = []
        \<and> uar_name rq = Some (JStr n) \<and> \<not> has_nul n \<and> uar_description rq = None
        \<and> \<not> (\<exists>b \<in> set (applications db). app_id b \<noteq> i \<and> app_name b = n)
      \<longrightarrow> update now rq db =
          ((200, ApplicationBody (a\<lparr> app_name := n, app_updated_at := now \<rparr>)),
           db\<lparr> applications :=
                 map (\<lambda>b. if app_id b = i then a\<lparr> app_name := n, app_updated_at := now \<rparr> else b)
                   (applications db) \<rparr>))
     \<and> (updateApplicationValidation rq = []
        \<and> uar_name rq = None \<and> uar_description rq = Some (JStr d) \<and> \<not> has_nul d
      \<longrightarrow> update now rq db =
          ((200, ApplicationBody (a\<lparr> app_description := Some d, app_updated_at := now \<rparr>)),
           db\<lparr> applications :=
                 map (\<lambda>b. if app_id b = i then a\<lparr> app_description := Some d, app_updated_at := now \<rparr> else b)
                   (applications db) \<rparr>))
     \<and> (updateApplicationValidation rq = []
        \<and> uar_name rq = Some (JStr n) \<and> \<not> has_nul n
        \<and> text_ok (text_param (uar_description rq))
        \<and> (\<exists>b \<in> set (applications db). app_id b \<noteq> i \<and> app_name b = n)
      \<longrightarrow> update now rq db =
          ((409, ErrorMessage ''Application with this name already exists''), db))
     \<and> (updateApplicationValidation rq = []
        \<and> (\<not> text_ok (text_param (uar_name rq)) \<or> \<not> text_ok (text_param (uar_description rq)))
      \<longrightarrow> update now rq db = ((500, ErrorMessage ''Internal server error''), db))"
proof -
  from found have a: "a \<in> set (applications db)" "app_id a = i"
    using find_Some_mem by fastforce+
  from wf have "inj_on app_name (set (applications db))"
    by (simp add: wf_db_def distinct_map)
  then have same_name: "\<And>b. b \<in> set (applications db) \<Longrightarrow> app_name b = app_name a \<Longrightarrow> b = a"
    using a(1) by (auto dest: inj_onD)
  from update_frame [OF found, of now rq] obtain a0
    where "find (\<lambda>x. app_id x = i) (applications (snd (update now rq db))) = Some a0"
      and "uar_name rq = None \<longrightarrow> app_name a0 = app_name a"
      and "uar_description rq = None \<longrightarrow> app_description a0 = app_description a"
    by (elim exE conjE)
  then have c0: "\<exists>a'. find (\<lambda>x. app_id x = i) (applications (snd (update now rq db))) = Some a'
         \<and> (uar_name rq = None \<longrightarrow> app_name a' = app_name a)
         \<and> (uar_description rq = None \<longrightarrow> app_description a' = app_description a)"
    by (intro exI [of _ a0] conjI)
  have c1: "updateApplicationValidation rq = []
        \<and> uar_name rq = Some (JStr n) \<and> \<not> has_nul n \<and> uar_description rq = None
        \<and> \<not> (\<exists>b \<in> set (applications db). app_id b \<noteq> i \<and> app_name b = n)
      \<longrightarrow> update now rq db =
          ((200, ApplicationBody (a\<lparr> app_name := n, app_updated_at := now \<rparr>)),
           db\<lparr> applications :=
                 map (\<lambda>b. if app_id b = i then a\<lparr> app_name := n, app_updated_at := now \<rparr> else b)
                   (applications db) \<rparr>)"
  proof (intro impI, elim conjE)
    assume valid: "updateApplicationValidation rq = []"
      and nm: "uar_name rq = Some (JStr n)" and nn: "\<not> has_nul n"
      and ds: "uar_description rq = None"
      and fr: "\<not> (\<exists>b \<in> set (applications db). app_id b \<noteq> i \<and> app_name b = n)"
    from nm nn ds have t: "text_ok (text_param (uar_name rq))" "text_ok (text_param (uar_description rq))"
      by (simp_all add: text_ok_def text_param_def)
    from nm ds fr show "update now rq db =
          ((200, ApplicationBody (a\<lparr> app_name := n, app_updated_at := now \<rparr>)),
           db\<lparr> applications :=
                 map (\<lambda>b. if app_id b = i then a\<lparr> app_name := n, app_updated_at := now \<rparr> else b)
                   (applications db) \<rparr>)"
      by (simp add: update_existing [OF wf valid t idv found] Let_def update_row_def text_param_def
          COALESCE_def)
  qed
  have c2: "updateApplicationValidation rq = []
        \<and> uar_name rq = None \<and> uar_description rq = Some (JStr d) \<and> \<not> has_nul d
      \<longrightarrow> update now rq db =
          ((200, ApplicationBody (a\<lparr> app_description := Some d, app_updated_at := now \<rparr>)),
           db\<lparr> applications :=
                 map (\<lambda>b. if app_id b = i then a\<lparr> app_description := Some d, app_updated_at := now \<rparr> else b)
                   (applications db) \<rparr>)"
  proof (intro impI, elim conjE)
    assume valid: "updateApplicationValidation rq = []"
      and n: "uar_name rq = None" and dd: "uar_description rq = Some (JStr d)"
      and nd: "\<not> has_nul d"
    from n dd nd have t: "text_ok (text_param (uar_name rq))" "text_ok (text_param (uar_description rq))"
      by (simp_all add: text_ok_def text_param_def)
    have "\<not> (\<exists>b \<in> set (applications db). app_id b \<noteq> i \<and> app_name b = app_name a)"
      using same_name a(2) by blast
    with n dd show "update now rq db =
          ((200, ApplicationBody (a\<lparr> app_description := Some d, app_updated_at := now \<rparr>)),
           db\<lparr> applications :=
                 map (\<lambda>b. if app_id b = i then a\<lparr> app_description := Some d, app_updated_at := now \<rparr> else b)
                   (applications db) \<rparr>)"
      by (simp add: update_existing [OF wf valid t idv found] Let_def update_row_def text_param_def
          COALESCE_def)
  qed
  have c3: "updateApplicationValidation rq = []
        \<and> uar_name rq = Some (JStr n) \<and> \<not> has_nul n
        \<and> text_ok (text_param (uar_description rq))
        \<and> (\<exists>b \<in> set (applications db). app_id b \<noteq> i \<and> app_name b = n)
      \<longrightarrow> update now rq db =
          ((409, ErrorMessage ''Application with this name already exists''), db)"
  proof (intro impI, elim conjE)
    assume valid: "updateApplicationValidation rq = []"
      and nm: "uar_name rq = Some (JStr n)" and nn: "\<not> has_nul n"
      and t2: "text_ok (text_param (uar_description rq))"
      and used: "\<exists>b \<in> set (applications db). app_id b \<noteq> i \<and> app_name b = n"
    from nm nn have t1: "text_ok (text_param (uar_name rq))"
      by (simp add: text_ok_def text_param_def)
    from nm used show "update now rq db =
          ((409, ErrorMessage ''Application with this name already exists''), db)"
      by (simp add: update_existing [OF wf valid t1 t2 idv found] Let_def update_row_def text_param_def)
  qed
  have c4: "updateApplicationValidation rq = []
        \<and> (\<not> text_ok (text_param (uar_name rq)) \<or> \<not> text_ok (text_param (uar_description rq)))
      \<longrightarrow> update now rq db = ((500, ErrorMessage ''Internal server error''), db)"
    using update_refused_text [of rq now db] by blast
  from c0 c1 c2 c3 c4 show ?thesis by blast
qed

theorem update_changes_only_supplied_fields_witness:
  "wf_db example_db
   \<and> updateApplicationValidation \<lparr> uar_id = ''2'', uar_name = Some (JStr ''catalog''), uar_description = None \<rparr> = []
   \<and> updateApplicationValidation \<lparr> uar_id = ''2'', uar_name = None, uar_description = Some (JStr ''full text'') \<rparr> = []
   \<and> updateApplicationValidation \<lparr> uar_id = ''2'', uar_name = Some (JStr ''mail''), uar_description = None \<rparr> = []
   \<and> updateApplicationValidation
        \<lparr> uar_id = ''2'', uar_name = None, uar_description = Some (JStr [CHR ''a'', CHR 0x00]) \<rparr> = []
   \<and> int_of_string ''2'' = Some 2
   \<and> find (\<lambda>a. app_id a = 2) (applications example_db)
       = Some \<lparr> app_id = 2, app_name = ''search'', app_description = None,
                app_created_at = 20, app_updated_at = 25 \<rparr>
   \<and> \<not> has_nul ''catalog'' \<and> \<not> has_nul ''full text'' \<and> \<not> has_nul ''mail''
   \<and> has_nul [CHR ''a'', CHR 0x00]
   \<and> fst (update 40 \<lparr> uar_id = ''2'', uar_name = Some (JStr ''catalog''), uar_description = None \<rparr> example_db)
       = (200, ApplicationBody \<lparr> app_id = 2, app_name = ''catalog'', app_description = None,
                app_created_at = 20, app_updated_at = 40 \<rparr>)
   \<and> fst (update 40 \<lparr> uar_id = ''2'', uar_name = None, uar_description = Some (JStr ''full text'') \<rparr> example_db)
       = (200, ApplicationBody \<lparr> app_id = 2, app_name = ''search'', app_description = Some ''full text'',
                app_created_at = 20, app_updated_at = 40 \<rparr>)
   \<and> update 40 \<lparr> uar_id = ''2'', uar_name = Some (JStr ''mail''), uar_description = None \<rparr> example_db
       = ((409, ErrorMessage ''Application with this name already exists''), example_db)
   \<and> update 40 \<lparr> uar_id = ''2'', uar_name = None, uar_description = Some (JStr [CHR ''a'', CHR 0x00]) \<rparr>
        example_db
       = ((500, ErrorMessage ''Internal server error''), example_db)"
proof -
  have v1: "updateApplicationValidation \<lparr> uar_id = ''2'', uar_name = Some (JStr ''catalog''), uar_description = None \<rparr> = []"
    and v2: "updateApplicationValidation \<lparr> uar_id = ''2'', uar_name = None, uar_description = Some (JStr ''full text'') \<rparr> = []"
    and v3: "updateApplicationValidation \<lparr> uar_id = ''2'', uar_name = Some (JStr ''mail''), uar_description = None \<rparr> = []"
    and v4: "updateApplicationValidation
        \<lparr> uar_id = ''2'', uar_name = None, uar_description = Some (JStr [CHR ''a'', CHR 0x00]) \<rparr> = []"
    by (simp_all add: updateApplicationValidation_def check_def isInt_def isString_def isLength_def
        int_of_string_def digits_value_def digit_val_def is_digit_def)
  have i: "int_of_string ''2'' = Some 2"
    by (simp add: int_of_string_def digits_value_def digit_val_def is_digit_def)
  have f: "find (\<lambda>a. app_id a = 2) (applications example_db)
       = Some \<lparr> app_id = 2, app_name = ''search'', app_description = None,
                app_created_at = 20, app_updated_at = 25 \<rparr>"
    by (simp add: example_db_def)
  have t: "\<not> has_nul ''catalog''" "\<not> has_nul ''full text''" "\<not> has_nul ''mail''"
    "has_nul [CHR ''a'', CHR 0x00]"
    by (simp_all add: has_nul_def)
  have r1: "fst (update 40 \<lparr> uar_id = ''2'', uar_name = Some (JStr ''catalog''), uar_description = None \<rparr> example_db)
       = (200, ApplicationBody \<lparr> app_id = 2, app_name = ''catalog'', app_description = None,
                app_created_at = 20, app_updated_at = 40 \<rparr>)"
    using update_changes_only_supplied_fields
      [where rq = "\<lparr> uar_id = ''2'', uar_name = Some (JStr ''catalog''), uar_description = None \<rparr>"
         and n = "''catalog''" and now = 40 and db = example_db and i = 2, OF wf_example_db _ f]
      i v1 t(1)
    by (simp add: example_db_def)
  have r2: "fst (update 40 \<lparr> uar_id = ''2'', uar_name = None, uar_description = Some (JStr ''full text'') \<rparr> example_db)
       = (200, ApplicationBody \<lparr> app_id = 2, app_name = ''search'', app_description = Some ''full text'',
                app_created_at = 20, app_updated_at = 40 \<rparr>)"
    using update_changes_only_supplied_fields
      [where rq = "\<lparr> uar_id = ''2'', uar_name = None, uar_description = Some (JStr ''full text'') \<rparr>"
         and d = "''full text''" and now = 40 and db = example_db and i = 2, OF wf_example_db _ f]
      i v2 t(2)
    by simp
  have r3: "update 40 \<lparr> uar_id = ''2'', uar_name = Some (JStr ''mail''), uar_description = None \<rparr> example_db
       = ((409, ErrorMessage ''Application with this name already exists''), example_db)"
    using update_changes_only_supplied_fields
      [where rq = "\<lparr> uar_id = ''2'', uar_name = Some (JStr ''mail''), uar_description = None \<rparr>"
         and n = "''mail''" and now = 40 and db = example_db and i = 2, OF wf_example_db _ f]
      i v3 t(3)
    by (simp add: example_db_def text_ok_def text_param_def)
  have r4: "update 40 \<lparr> uar_id = ''2'', uar_name = None, uar_description = Some (JStr [CHR ''a'', CHR 0x00]) \<rparr>
        example_db
       = ((500, ErrorMessage ''Internal server error''), example_db)"
    using update_changes_only_supplied_fields
      [where rq = "\<lparr> uar_id = ''2'', uar_name = None, uar_description = Some (JStr [CHR ''a'', CHR 0x00]) \<rparr>"
         and now = 40 and db = example_db and i = 2, OF wf_example_db _ f]
      i v4 t(4)
    by (simp add: text_ok_def text_param_def)
  from wf_example_db v1 v2 v3 v4 i f t r1 r2 r3 r4 show ?thesis by blast
qed

text \<open>
  C9. An update request that addresses a stored application and supplies neither
  \<open>name\<close> nor \<open>description\<close> is answered 200; the row keeps its name and its
  description, and \<open>updated_at\<close> is the current time. And whatever an update request
  carries (a \<open>null\<close> included), an application that has a description before the
  request has one after it: the description is never reset to NULL (the name and the
  other columns cannot be NULL at all).
\<close>

theorem update_without_fields:
  assumes wf: "wf_db db"
    and idv: "int_of_string s = Some i"
    and found: "find (\<lambda>a. app_id a = i) (applications db) = Some a"
  shows
    "update now \<lparr> uar_id = s, uar_name = None, uar_description = None \<rparr> db =
       ((200, ApplicationBody (a\<lparr> app_updated_at := now \<rparr>)),
        db\<lparr> applications :=
              map (\<lambda>b. if app_id b = i then a\<lparr> app_updated_at := now \<rparr> else b) (applications db) \<rparr>)
     \<and> (find (\<lambda>x. app_id x = j) (applications db) = Some y \<and> app_description y \<noteq> None
        \<longrightarrow> (\<exists>y'. find (\<lambda>x. app_id x = j) (applications (snd (update now' rq db))) = Some y'
                  \<and> app_description y' \<noteq> None))"
proof -
  let ?rq = "\<lparr> uar_id = s, uar_name = None, uar_description = None \<rparr>"
  from found have a: "a \<in> set (applications db)" "app_id a = i"
    using find_Some_mem by fastforce+
  from wf_db_id_range [OF wf a(1)] a(2) have "1 \<le> i" by simp
  with idv have "isInt 1 None s" by (rule isInt_of_value)
  then have valid: "updateApplicationValidation ?rq = []"
    by (simp add: updateApplicationValidation_def check_def)
  have t: "text_ok (text_param (uar_name ?rq))" "text_ok (text_param (uar_description ?rq))"
    by (simp_all add: text_ok_def text_param_def)
  from wf have "inj_on app_name (set (applications db))"
    by (simp add: wf_db_def distinct_map)
  then have "\<not> (\<exists>b \<in> set (applications db). app_id b \<noteq> i \<and> app_name b = app_name a)"
    using a by (auto dest: inj_onD)
  with update_existing [OF wf valid t, of i a now] idv found
  have first: "update now ?rq db =
       ((200, ApplicationBody (a\<lparr> app_updated_at := now \<rparr>)),
        db\<lparr> applications :=
              map (\<lambda>b. if app_id b = i then a\<lparr> app_updated_at := now \<rparr> else b) (applications db) \<rparr>)"
    by (simp add: Let_def update_row_def text_param_def COALESCE_def)
  have second: "find (\<lambda>x. app_id x = j) (applications db) = Some y \<and> app_description y \<noteq> None
        \<longrightarrow> (\<exists>y'. find (\<lambda>x. app_id x = j) (applications (snd (update now' rq db))) = Some y'
                  \<and> app_description y' \<noteq> None)"
  proof (intro impI, elim conjE)
    assume fy: "find (\<lambda>x. app_id x = j) (applications db) = Some y" and dy: "app_description y \<noteq> None"
    from update_frame [OF fy, of now' rq] obtain y0
      where "find (\<lambda>x. app_id x = j) (applications (snd (update now' rq db))) = Some y0"
        and "app_description y \<noteq> None \<longrightarrow> app_description y0 \<noteq> None"
      by (elim exE conjE)
    with dy show "\<exists>y'. find (\<lambda>x. app_id x = j) (applications (snd (update now' rq db))) = Some y'
                  \<and> app_description y' \<noteq> None"
      by (intro exI [of _ y0] conjI) simp_all
  qed
  from first second show ?thesis by blast
qed

theorem update_without_fields_witness:
  "wf_db example_db \<and> int_of_string ''2'' = Some 2
   \<and> find (\<lambda>a. app_id a = 2) (applications example_db)
       = Some \<lparr> app_id = 2, app_name = ''search'', app_description = None,
                app_created_at = 20, app_updated_at = 25 \<rparr>
   \<and> fst (update 40 \<lparr> uar_id = ''2'', uar_name = None, uar_description = None \<rparr> example_db)
       = (200, ApplicationBody \<lparr> app_id = 2, app_name = ''search'', app_description = None,
                app_created_at = 20, app_updated_at = 40 \<rparr>)
   \<and> find (\<lambda>x. app_id x = 1) (applications example_db)
       = Some \<lparr> app_id = 1, app_name = ''billing'', app_description = Some ''invoices'',
                app_created_at = 10, app_updated_at = 10 \<rparr>
   \<and> (\<exists>y'. find (\<lambda>x. app_id x = 1)
               (applications (snd (update 41 \<lparr> uar_id = ''1'', uar_name = None, uar_description = Some JNull \<rparr>
                  example_db))) = Some y'
            \<and> app_description y' \<noteq> None)"
proof -
  have i: "int_of_string ''2'' = Some 2"
    by (simp add: int_of_string_def digits_value_def digit_val_def is_digit_def)
  have f: "find (\<lambda>a. app_id a = 2) (applications example_db)
       = Some \<lparr> app_id = 2, app_name = ''search'', app_description = None,
                app_created_at = 20, app_updated_at = 25 \<rparr>"
    by (simp add: example_db_def)
  have g: "find (\<lambda>x. app_id x = 1) (applications example_db)
       = Some \<lparr> app_id = 1, app_name = ''billing'', app_description = Some ''invoices'',
                app_created_at = 10, app_updated_at = 10 \<rparr>"
    by (simp add: example_db_def)
  note w = update_without_fields [OF wf_example_db i f,
      where now = 40 and j = 1 and now' = 41
        and rq = "\<lparr> uar_id = ''1'', uar_name = None, uar_description = Some JNull \<rparr>"
        and y = "\<lparr> app_id = 1, app_name = ''billing'', app_description = Some ''invoices'',
                app_created_at = 10, app_updated_at = 10 \<rparr>"]
  from w have r1: "fst (update 40 \<lparr> uar_id = ''2'', uar_name = None, uar_description = None \<rparr> example_db)
       = (200, ApplicationBody \<lparr> app_id = 2, app_name = ''search'', app_description = None,
                app_created_at = 20, app_updated_at = 40 \<rparr>)"
    by simp
  from w g have r2: "\<exists>y'. find (\<lambda>x. app_id x = 1)
               (applications (snd (update 41 \<lparr> uar_id = ''1'', uar_name = None, uar_description = Some JNull \<rparr>
                  example_db))) = Some y'
            \<and> app_description y' \<noteq> None"
    by simp
  from wf_example_db i f r1 g r2 show ?thesis by blast
qed

lemma insert_fresh:
  assumes wf: "wf_db db" and fresh: "find (\<lambda>a. app_name a = n) (applications db) = None"
    and len: "length n \<le> 255" and texts: "\<not> has_nul n" "text_ok d"
    and seq: "applications_id_seq db \<le> 2147483647"
  shows "insert_application now (Some n) d db =
      (Inr [\<lparr> app_id = applications_id_seq db, app_name = n, app_description = d,
              app_created_at = now, app_updated_at = now \<rparr>],
       db\<lparr> applications_id_seq := applications_id_seq db + 1,
           applications := applications db @
             [\<lparr> app_id = applications_id_seq db, app_name = n, app_description = d,
                app_created_at = now, app_updated_at = now \<rparr>] \<rparr>)"
proof -
  from wf have "applications_id_seq db \<notin> app_id ` set (applications db)"
    by (auto simp: wf_db_def list_all_iff)
  moreover from fresh have "n \<notin> app_name ` set (applications db)"
    by (auto simp: find_None_iff)
  ultimately show ?thesis using wf len texts seq
    by (simp add: insert_application_def Let_def wf_db_def text_ok_def fit_varchar_short)
qed

lemma insert_duplicate:
  assumes "n \<in> app_name ` set (applications db)"
    and "length n \<le> 255" and "\<not> has_nul n" "text_ok d"
    and "applications_id_seq db \<le> 2147483647"
  shows "insert_application now (Some n) d db =
      (Inl (PgError ''23505''), db\<lparr> applications_id_seq := applications_id_seq db + 1 \<rparr>)"
  using assms by (simp add: insert_application_def Let_def text_ok_def fit_varchar_short)

text \<open>
  C4 (as stated: for every name, \<open>create\<close> succeeds with 201 when no application has
  that name). The empty name is a name that no stored application has, and the request
  is answered 400 by the route's validation; nothing is created.
\<close>

theorem create_empty_name_counterexample:
  "find (\<lambda>a. app_name a = []) (applications example_db) = None
   \<and> create 50 \<lparr> car_name = Some (JStr []), car_description = None \<rparr> example_db
     = ((400, ValidationFailed
           [\<lparr> ve_path = ''name'', ve_msg = ''Name must be a string between 1 and 255 characters'' \<rparr>]),
        example_db)"
  by (simp add: create_def createApplicationValidation_def check_def isString_def isLength_def
      example_db_def)

text \<open>
  C4 (amended). In a well-formed store whose id sequence is below 2147483647 (two ids are
  left), for a create request that passes the route's validation, whose name and
  description hold no character U+0000 and whose name no stored application has,
  \<open>create\<close> answers 201 with the new row, which is appended to the table. A second
  \<open>create\<close> with the same name, that passes the validation and whose description
  holds no U+0000, is answered 409 (Application with this name already exists), and the
  table of applications, with the first row in it, is as it was before the second
  request.
\<close>

theorem create_then_duplicate_conflict:
  assumes wf: "wf_db db"
    and valid: "createApplicationValidation \<lparr> car_name = Some (JStr n), car_description = d \<rparr> = []"
    and texts: "\<not> has_nul n" "text_ok (text_param d)"
    and seq: "applications_id_seq db < 2147483647"
    and fresh: "find (\<lambda>a. app_name a = n) (applications db) = None"
    and valid': "createApplicationValidation \<lparr> car_name = Some (JStr n), car_description = d' \<rparr> = []"
    and texts': "text_ok (text_param d')"
    and row: "row = \<lparr> app_id = applications_id_seq db, app_name = n, app_description = text_param d,
                      app_created_at = now, app_updated_at = now \<rparr>"
    and db1: "db1 = db\<lparr> applications_id_seq := applications_id_seq db + 1,
                        applications := applications db @ [row] \<rparr>"
  shows "create now \<lparr> car_name = Some (JStr n), car_description = d \<rparr> db
           = ((201, ApplicationBody row), db1)
     \<and> fst (create now' \<lparr> car_name = Some (JStr n), car_description = d' \<rparr> db1)
           = (409, ErrorMessage ''Application with this name already exists'')
     \<and> applications (snd (create now' \<lparr> car_name = Some (JStr n), car_description = d' \<rparr> db1))
           = applications db1"
proof -
  from valid have len: "length n \<le> 255"
    by (auto simp: createApplicationValidation_Nil_iff)
  from seq have seq0: "applications_id_seq db \<le> 2147483647" by simp
  have one: "create now \<lparr> car_name = Some (JStr n), car_description = d \<rparr> db
           = ((201, ApplicationBody row), db1)"
    using valid insert_fresh [OF wf fresh len texts seq0, of now]
    by (simp add: create_def Let_def text_param_def row db1)
  have "n \<in> app_name ` set (applications db1)"
    by (simp add: db1 row)
  moreover from seq have "applications_id_seq db1 \<le> 2147483647" by (simp add: db1)
  ultimately have "insert_application now' (Some n) (text_param d') db1 =
      (Inl (PgError ''23505''), db1\<lparr> applications_id_seq := applications_id_seq db1 + 1 \<rparr>)"
    using len texts(1) texts' by (intro insert_duplicate)
  with valid' have two: "create now' \<lparr> car_name = Some (JStr n), car_description = d' \<rparr> db1
      = ((409, ErrorMessage ''Application with this name already exists''),
         db1\<lparr> applications_id_seq := applications_id_seq db1 + 1 \<rparr>)"
    by (simp add: create_def Let_def text_param_def)
  from one two show ?thesis by simp
qed

theorem create_then_duplicate_conflict_witness:
  "wf_db example_db
   \<and> createApplicationValidation \<lparr> car_name = Some (JStr ''catalog''), car_description = Some (JStr ''products'') \<rparr> = []
   \<and> \<not> has_nul ''catalog''
   \<and> text_ok (text_param (Some (JStr ''products'')))
   \<and> applications_id_seq example_db < 2147483647
   \<and> find (\<lambda>a. app_name a = ''catalog'') (applications example_db) = None
   \<and> createApplicationValidation \<lparr> car_name = Some (JStr ''catalog''), car_description = None \<rparr> = []
   \<and> text_ok (text_param None)
   \<and> create 50 \<lparr> car_name = Some (JStr ''catalog''), car_description = Some (JStr ''products'') \<rparr> example_db
       = ((201, ApplicationBody \<lparr> app_id = 5, app_name = ''catalog'', app_description = Some ''products'',
                 app_created_at = 50, app_updated_at = 50 \<rparr>),
          example_db\<lparr> applications_id_seq := 6,
             applications := applications example_db @
               [\<lparr> app_id = 5, app_name = ''catalog'', app_description = Some ''products'',
                  app_created_at = 50, app_updated_at = 50 \<rparr>] \<rparr>)
   \<and> fst (create 51 \<lparr> car_name = Some (JStr ''catalog''), car_description = None \<rparr>
          (example_db\<lparr> applications_id_seq := 6,
             applications := applications example_db @
               [\<lparr> app_id = 5, app_name = ''catalog'', app_description = Some ''products'',
                  app_created_at = 50, app_updated_at = 50 \<rparr>] \<rparr>))
       = (409, ErrorMessage ''Application with this name already exists'')
   \<and> applications (snd (create 51 \<lparr> car_name = Some (JStr ''catalog''), car_description = None \<rparr>
          (example_db\<lparr> applications_id_seq := 6,
             applications := applications example_db @
               [\<lparr> app_id = 5, app_name = ''catalog'', app_description = Some ''products'',
                  app_created_at = 50, app_updated_at = 50 \<rparr>] \<rparr>)))
       = applications example_db @
               [\<lparr> app_id = 5, app_name = ''catalog'', app_description = Some ''products'',
                  app_created_at = 50, app_updated_at = 50 \<rparr>]"
proof -
  have v1: "createApplicationValidation \<lparr> car_name = Some (JStr ''catalog''), car_description = Some (JStr ''products'') \<rparr> = []"
    and v2: "createApplicationValidation \<lparr> car_name = Some (JStr ''catalog''), car_description = None \<rparr> = []"
    by (simp_all add: createApplicationValidation_def check_def isString_def isLength_def)
  have t1: "\<not> has_nul ''catalog''"
    and t2: "text_ok (text_param (Some (JStr ''products'')))"
    and t3: "text_ok (text_param None)"
    by (simp_all add: has_nul_def text_ok_def text_param_def)
  have sq: "applications_id_seq example_db < 2147483647"
    by (simp add: example_db_def)
  have fr: "find (\<lambda>a. app_name a = ''catalog'') (applications example_db) = None"
    by (simp add: example_db_def)
  have r: "\<lparr> app_id = 5, app_name = ''catalog'', app_description = Some ''products'',
                 app_created_at = 50, app_updated_at = 50 \<rparr>
      = \<lparr> app_id = applications_id_seq example_db, app_name = ''catalog'',
          app_description = text_param (Some (JStr ''products'')),
          app_created_at = 50, app_updated_at = 50 \<rparr>"
    by (simp add: example_db_def text_param_def)
  have d: "example_db\<lparr> applications_id_seq := 6,
             applications := applications example_db @
               [\<lparr> app_id = 5, app_name = ''catalog'', app_description = Some ''products'',
                  app_created_at = 50, app_updated_at = 50 \<rparr>] \<rparr>
      = example_db\<lparr> applications_id_seq := applications_id_seq example_db + 1,
             applications := applications example_db @
               [\<lparr> app_id = 5, app_name = ''catalog'', app_description = Some ''products'',
                  app_created_at = 50, app_updated_at = 50 \<rparr>] \<rparr>"
    by (simp add: example_db_def)
  from create_then_duplicate_conflict [OF wf_example_db v1 t1 t2 sq fr v2 t3 r d, where now' = 51]
    wf_example_db v1 t1 t2 sq fr v2 t3
  show ?thesis by simp
qed

lemma order_by_desc_sorted:
  "sorted_wrt (\<lambda>a b. k b \<le> k a) (order_by_desc k scan rows)"
proof -
  have "sorted (map (\<lambda>r. - int (k r)) (order_by_desc k scan rows))"
    by (simp add: order_by_desc_def)
  then show ?thesis by (simp add: sorted_map)
qed

lemma order_by_desc_mset:
  "mset (scan rows) = mset rows \<Longrightarrow> mset (order_by_desc k scan rows) = mset rows"
  by (simp add: order_by_desc_def)

lemma order_by_desc_length:
  assumes "mset (scan rows) = mset rows"
  shows "length (order_by_desc k scan rows) = length rows"
proof -
  have "length (order_by_desc k scan rows) = size (mset (scan rows))"
    by (simp add: order_by_desc_def)
  with assms show ?thesis by simp
qed

lemma ceil_div_pos:
  "0 < l \<Longrightarrow> ceil_div n (Some l) = Some \<lceil>real_of_int n / real_of_int l\<rceil>"
  by (simp add: ceil_div_def ceiling_divide_eq_div)

lemma page_length:
  assumes "0 \<le> off" "0 \<le> l"
  shows "int (length (take (nat l) (drop (nat off) xs)))
         = max 0 (min l (int (length xs) - off))"
  using assms by (simp add: min_def max_def) linarith

lemma last_page_size:
  assumes p1: "1 \<le> p" and l1: "1 \<le> l" and N0: "0 \<le> N"
    and last: "p = \<lceil>real_of_int N / real_of_int l\<rceil>"
  shows "max 0 (min l (N - (p - 1) * l)) = (if N mod l = 0 then l else N mod l)"
proof -
  from last have p: "p = - ((- N) div l)" by (simp add: ceiling_divide_eq_div)
  show ?thesis
  proof (cases "N mod l = 0")
    case True
    then have "N = (N div l) * l" by auto
    moreover from True have "(- N) div l = - (N div l)"
      by (metis div_minus_right dvd_div_neg dvd_neg_div mod_0_imp_dvd minus_minus)
    ultimately have "N = p * l" using p by simp
    then have "N - (p - 1) * l = l" by (simp add: algebra_simps)
    with True l1 show ?thesis by simp
  next
    case False
    with l1 have "(- N) div l = - (N div l) - 1"
      by (simp add: zdiv_zminus1_eq_if)
    with p have "p - 1 = N div l" by simp
    then have "N - (p - 1) * l = N mod l"
      by (simp add: minus_div_mult_eq_mod)
    moreover from l1 have "0 \<le> N mod l" "N mod l < l" by simp_all
    ultimately show ?thesis using False by simp
  qed
qed

lemma bigint_param_small:
  assumes "0 \<le> x" "x \<le> 2 ^ 53"
  shows "bigint_param (Some x) = Inr x"
proof -
  have "(2::int) ^ 53 < 10 ^ 21" "(2::int) ^ 53 \<le> 2 ^ 63 - 1" by simp_all
  with assms have "\<not> 10 ^ 21 \<le> \<bar>x\<bar>" "\<not> (x < - (2 ^ 63) \<or> 2 ^ 63 - 1 < x)"
    by linarith+
  then show ?thesis by (simp add: bigint_param_def)
qed

lemma parseInt_2_63: "parseInt ''9223372036854775808'' = Some 9223372036854775808"
  by code_simp

text \<open>
  C5 (as stated: for every page of at least 1 and every limit from 1 to 100 the listing
  returns the ordered items with the total and the number of pages). For the page
  9223372036854775808 and the limit 1, \<open>parseInt\<close> reads both exactly, the offset
  \<open>(page - 1) * limit\<close> is \<open>2^63\<close> in doubles and does not fit the \<open>bigint\<close>
  parameter of \<open>OFFSET\<close>: the query fails and the reply is 500 (Internal server error).
\<close>

theorem getAll_page_out_of_range_counterexample:
  "parseInt ''9223372036854775808'' = Some 9223372036854775808
   \<and> (1::int) \<le> 9223372036854775808
   \<and> parseInt ''1'' = Some 1
   \<and> getAll id \<lparr> q_page = Some ''9223372036854775808'', q_limit = Some ''1'' \<rparr> example_db
       = (500, ErrorMessage ''Internal server error'')"
  by code_simp

text \<open>
  C5 (amended). In a well-formed store, when the page that \<open>parseInt\<close> reads from the
  query is at least 1, the limit it reads is from 1 to 100 and \<open>(page - 1) * limit\<close> is
  at most \<open>2^53\<close>, \<open>getAll\<close> answers 200 with the slice
  \<open>[(page - 1) * limit, page * limit)\<close> of the applications ordered by creation time,
  latest first, whatever the order in which the store reads the table, provided that it
  reads every row once (that order decides between applications of equal creation time).
  The reply carries the page and the limit as read, \<open>total\<close> is the number of all stored
  applications and \<open>totalPages\<close> is the ceiling of \<open>total / limit\<close>. The slice holds
  \<open>min limit (total - (page - 1) * limit)\<close> items (none beyond the end), and on the last
  page, \<open>page = totalPages\<close>, that is \<open>total mod limit\<close>, or \<open>limit\<close> when \<open>limit\<close>
  divides \<open>total\<close>.
\<close>

theorem getAll_pagination:
  assumes wf: "wf_db db"
    and scan: "mset (scan (applications db)) = mset (applications db)"
    and pg: "parseInt (or_default (q_page q) ''1'') = Some p" and p1: "1 \<le> p"
    and lm: "parseInt (or_default (q_limit q) ''10'') = Some l" and l1: "1 \<le> l"
    and l100: "l \<le> 100"
    and bound: "(p - 1) * l \<le> 2 ^ 53"
    and rows: "rows = order_by_desc app_created_at scan (applications db)"
    and items: "items = take (nat l) (drop (nat ((p - 1) * l)) rows)"
    and N: "N = int (length (applications db))"
  shows "getAll scan q db =
           (200, ApplicationPage items
              \<lparr> pg_page = Some p, pg_limit = Some l, pg_total = N,
                pg_totalPages = Some \<lceil>real_of_int N / real_of_int l\<rceil> \<rparr>)
     \<and> mset rows = mset (applications db)
     \<and> sorted_wrt (\<lambda>a b. app_created_at b \<le> app_created_at a) rows
     \<and> sorted_wrt (\<lambda>a b. app_created_at b \<le> app_created_at a) items
     \<and> int (length items) = max 0 (min l (N - (p - 1) * l))
     \<and> (p = \<lceil>real_of_int N / real_of_int l\<rceil>
          \<longrightarrow> int (length items) = (if N mod l = 0 then l else N mod l))"
proof -
  from p1 l1 have off: "0 \<le> (p - 1) * l" by simp
  from l1 have l0: "0 < l" "0 \<le> l" by simp_all
  from p1 l1 have "p - 1 \<le> (p - 1) * l" by (simp add: mult_le_cancel_left1)
  with bound p1 have "\<bar>p - 1\<bar> \<le> 2 ^ 53" by simp
  then have m: "js_minus (Some p) 1 = Some (p - 1)"
    by (simp add: js_minus_def to_double_exact)
  from bound off have "\<bar>(p - 1) * l\<bar> \<le> 2 ^ 53" by simp
  then have t: "js_times (Some (p - 1)) (Some l) = Some ((p - 1) * l)"
    by (simp add: js_times_def to_double_exact)
  from l0 l100 have bl: "bigint_param (Some l) = Inr l"
    by (intro bigint_param_small) simp_all
  from off bound have bo: "bigint_param (Some ((p - 1) * l)) = Inr ((p - 1) * l)"
    by (rule bigint_param_small)
  have sel: "select_applications_page scan (Some l) (Some ((p - 1) * l)) db = Inr items"
    using off l1 by (simp add: select_applications_page_def limit_offset_def bl bo items rows)
  have reply: "getAll scan q db =
           (200, ApplicationPage items
              \<lparr> pg_page = Some p, pg_limit = Some l, pg_total = N,
                pg_totalPages = Some \<lceil>real_of_int N / real_of_int l\<rceil> \<rparr>)"
    using pg lm sel ceil_div_pos [OF l0(1)]
    by (simp add: getAll_def Let_def count_applications_def N m t)
  have perm: "mset rows = mset (applications db)"
    unfolding rows using scan by (rule order_by_desc_mset)
  have srt: "sorted_wrt (\<lambda>a b. app_created_at b \<le> app_created_at a) rows"
    unfolding rows by (rule order_by_desc_sorted)
  then have srt_items: "sorted_wrt (\<lambda>a b. app_created_at b \<le> app_created_at a) items"
    unfolding items by simp
  have len: "int (length items) = max 0 (min l (N - (p - 1) * l))"
    unfolding items N using page_length [OF off l0(2), of rows]
    by (simp add: rows order_by_desc_length [where scan = scan, OF scan])
  have lastp: "p = \<lceil>real_of_int N / real_of_int l\<rceil>
          \<longrightarrow> int (length items) = (if N mod l = 0 then l else N mod l)"
  proof
    assume "p = \<lceil>real_of_int N / real_of_int l\<rceil>"
    from last_page_size [OF p1 l1 _ this] len show
      "int (length items) = (if N mod l = 0 then l else N mod l)"
      by (simp add: N)
  qed
  from reply perm srt srt_items len lastp show ?thesis by blast
qed

theorem getAll_pagination_witness:
  "wf_db example_db
   \<and> mset (rev (applications example_db)) = mset (applications example_db)
   \<and> parseInt (or_default (Some ''2'') ''1'') = Some 2
   \<and> parseInt (or_default (Some ''2'') ''10'') = Some 2
   \<and> (2 - 1) * 2 \<le> (2::int) ^ 53
   \<and> getAll rev \<lparr> q_page = Some ''2'', q_limit = Some ''2'' \<rparr> example_db
       = (200, ApplicationPage
            [\<lparr> app_id = 1, app_name = ''billing'', app_description = Some ''invoices'',
               app_created_at = 10, app_updated_at = 10 \<rparr>]
            \<lparr> pg_page = Some 2, pg_limit = Some 2, pg_total = 3, pg_totalPages = Some 2 \<rparr>)
   \<and> order_by_desc app_created_at rev (applications example_db)
       = [\<lparr> app_id = 4, app_name = ''mail'', app_description = Some ''smtp'',
             app_created_at = 30, app_updated_at = 30 \<rparr>,
          \<lparr> app_id = 2, app_name = ''search'', app_description = None,
             app_created_at = 20, app_updated_at = 25 \<rparr>,
          \<lparr> app_id = 1, app_name = ''billing'', app_description = Some ''invoices'',
             app_created_at = 10, app_updated_at = 10 \<rparr>]
   \<and> (2::int) = \<lceil>real_of_int 3 / real_of_int 2\<rceil>
   \<and> (3::int) mod 2 = 1"
proof -
  have pg: "parseInt (or_default (q_page \<lparr> q_page = Some ''2'', q_limit = Some ''2'' \<rparr>) ''1'') = Some 2"
    and lm: "parseInt (or_default (q_limit \<lparr> q_page = Some ''2'', q_limit = Some ''2'' \<rparr>) ''10'') = Some 2"
    by code_simp+
  have sc: "mset (rev (applications example_db)) = mset (applications example_db)"
    by simp
  have ord: "order_by_desc app_created_at rev (applications example_db)
       = [\<lparr> app_id = 4, app_name = ''mail'', app_description = Some ''smtp'',
             app_created_at = 30, app_updated_at = 30 \<rparr>,
          \<lparr> app_id = 2, app_name = ''search'', app_description = None,
             app_created_at = 20, app_updated_at = 25 \<rparr>,
          \<lparr> app_id = 1, app_name = ''billing'', app_description = Some ''invoices'',
             app_created_at = 10, app_updated_at = 10 \<rparr>]"
    by (simp add: order_by_desc_def example_db_def)
  have len: "int (length (applications example_db)) = 3"
    by (simp add: example_db_def)
  from getAll_pagination [where scan = rev and db = example_db, OF wf_example_db sc pg _ lm _ _ _ refl refl refl]
  have "getAll rev \<lparr> q_page = Some ''2'', q_limit = Some ''2'' \<rparr> example_db
       = (200, ApplicationPage
            [\<lparr> app_id = 1, app_name = ''billing'', app_description = Some ''invoices'',
               app_created_at = 10, app_updated_at = 10 \<rparr>]
            \<lparr> pg_page = Some 2, pg_limit = Some 2, pg_total = 3, pg_totalPages = Some 2 \<rparr>)"
    by (simp add: ord len)
  with wf_example_db pg lm ord show ?thesis by simp
qed
section \<open>Properties of the configuration controller\<close>




section \<open>Properties of name validation\<close>

lemma trim_Nil_iff: "trim s = [] \<longleftrightarrow> list_all is_space s"
proof -
  have "trim s = [] \<longleftrightarrow> dropWhile is_space (rev (dropWhile is_space s)) = []"
    by (simp add: trim_def)
  also have "\<dots> \<longleftrightarrow> (\<forall>c \<in> set (dropWhile is_space s). is_space c)"
    by (simp add: dropWhile_eq_Nil_conv)
  also have "\<dots> \<longleftrightarrow> dropWhile is_space s = []"
  proof
    assume a: "\<forall>c \<in> set (dropWhile is_space s). is_space c"
    show "dropWhile is_space s = []"
    proof (cases "dropWhile is_space s")
      case Nil then show ?thesis .
    next
      case (Cons c cs)
      then have "\<not> is_space c" using hd_dropWhile [of is_space s] by simp
      with a Cons show ?thesis by simp
    qed
  next
    assume "dropWhile is_space s = []"
    then show "\<forall>c \<in> set (dropWhile is_space s). is_space c"
      by (simp del: dropWhile_eq_Nil_conv)
  qed
  also have "\<dots> \<longleftrightarrow> list_all is_space s"
    by (simp add: dropWhile_eq_Nil_conv list_all_iff)
  finally show ?thesis .
qed

lemma name_char_not_space: "name_char c \<Longrightarrow> \<not> is_space c"
  by (auto simp: name_char_def is_space_def)

lemma name_pattern_not_blank: "name_pattern s \<Longrightarrow> trim s \<noteq> []"
proof -
  assume p: "name_pattern s"
  then obtain c cs where s: "s = c # cs" and "name_char c"
    by (cases s) (auto simp: name_pattern_def)
  then have "\<not> is_space c" by (simp add: name_char_not_space)
  with s have "\<not> list_all is_space s" by simp
  then show ?thesis by (simp add: trim_Nil_iff)
qed

lemma validateForm_name_ok_iff:
  "fe_name (snd (validateForm fd)) = None \<longleftrightarrow> name_pattern (ac_name fd)"
  using name_pattern_not_blank [of "ac_name fd"]
  by (auto simp: validateForm_def Let_def)

text \<open>
  C7 (as stated: every create request whose name is not 1 to 255 characters of
  \<open>[A-Za-z0-9_-]\<close> is rejected before a record is created). The route's validation has
  no character-set rule: the name \<open>my app!\<close> is accepted and the application is created
  with 201. The form has the character-set rule but no length rule: a name of 256 letters
  passes \<open>validateForm\<close> and is submitted.
\<close>

theorem create_name_charset_counterexample:
  "\<not> list_all name_char ''my app!''
   \<and> create 50 \<lparr> car_name = Some (JStr ''my app!''), car_description = None \<rparr> example_db
       = ((201, ApplicationBody \<lparr> app_id = 5, app_name = ''my app!'', app_description = None,
                  app_created_at = 50, app_updated_at = 50 \<rparr>),
          example_db\<lparr> applications_id_seq := 6,
             applications := applications example_db @
               [\<lparr> app_id = 5, app_name = ''my app!'', app_description = None,
                  app_created_at = 50, app_updated_at = 50 \<rparr>] \<rparr>)
   \<and> length (replicate 256 (CHR ''a'')) = 256
   \<and> validateForm \<lparr> ac_name = replicate 256 (CHR ''a''), ac_description = None \<rparr>
       = (True, \<lparr> fe_name = None, fe_description = None \<rparr>)
   \<and> submitForm Idle \<lparr> ac_name = replicate 256 (CHR ''a''), ac_description = None \<rparr>
       = Some \<lparr> ac_name = replicate 256 (CHR ''a''), ac_description = None \<rparr>"
proof -
  have 1: "\<not> list_all name_char ''my app!''"
    by (simp add: name_char_def)
  have 2: "create 50 \<lparr> car_name = Some (JStr ''my app!''), car_description = None \<rparr> example_db
       = ((201, ApplicationBody \<lparr> app_id = 5, app_name = ''my app!'', app_description = None,
                  app_created_at = 50, app_updated_at = 50 \<rparr>),
          example_db\<lparr> applications_id_seq := 6,
             applications := applications example_db @
               [\<lparr> app_id = 5, app_name = ''my app!'', app_description = None,
                  app_created_at = 50, app_updated_at = 50 \<rparr>] \<rparr>)"
    by (simp add: create_def createApplicationValidation_def check_def isString_def isLength_def
        insert_application_def text_param_def text_ok_def has_nul_def fit_varchar_def Let_def
        example_db_def)
  have p: "name_pattern (replicate 256 (CHR ''a''))"
    by (simp add: name_pattern_def list_all_iff name_char_def)
  from name_pattern_not_blank [OF p] p
  have 3: "validateForm \<lparr> ac_name = replicate 256 (CHR ''a''), ac_description = None \<rparr>
       = (True, \<lparr> fe_name = None, fe_description = None \<rparr>)"
    by (simp add: validateForm_def Let_def)
  then have 4: "submitForm Idle \<lparr> ac_name = replicate 256 (CHR ''a''), ac_description = None \<rparr>
       = Some \<lparr> ac_name = replicate 256 (CHR ''a''), ac_description = None \<rparr>"
    by (simp add: submitForm_def)
  from 1 2 3 4 show ?thesis by simp
qed

text \<open>
  C7 (amended). The route's validation of a create request reports a field-level error
  for \<open>name\<close> exactly when the name is not a string of 1 to 255 characters, with no
  restriction on its characters; a request with a validation error is answered 400 and
  nothing is created. The form's \<open>validateForm\<close> reports an error for the name exactly
  when it is empty or has a character outside \<open>[A-Za-z0-9_-]\<close>, with no restriction on
  its length; a form with a name error sends no request.
\<close>

theorem name_validation_server_and_form:
  "((\<exists>e \<in> set (createApplicationValidation rq). ve_path e = ''name'')
      \<longleftrightarrow> \<not> (\<exists>s. car_name rq = Some (JStr s) \<and> 1 \<le> length s \<and> length s \<le> 255))
   \<and> (createApplicationValidation rq \<noteq> []
      \<longrightarrow> create now rq db = ((400, ValidationFailed (createApplicationValidation rq)), db))
   \<and> (fe_name (snd (validateForm fd)) = None
      \<longleftrightarrow> ac_name fd \<noteq> [] \<and> list_all name_char (ac_name fd))
   \<and> (fe_name (snd (validateForm fd)) \<noteq> None \<longrightarrow> submitForm st fd = None)"
proof -
  have 1: "(\<exists>e \<in> set (createApplicationValidation rq). ve_path e = ''name'')
      \<longleftrightarrow> \<not> (\<exists>s. car_name rq = Some (JStr s) \<and> 1 \<le> length s \<and> length s \<le> 255)"
    by (auto simp: createApplicationValidation_def check_def isString_def isLength_def
        split: option.splits json.splits)
  have 2: "createApplicationValidation rq \<noteq> []
      \<longrightarrow> create now rq db = ((400, ValidationFailed (createApplicationValidation rq)), db)"
    by (simp add: create_def Let_def)
  have 3: "fe_name (snd (validateForm fd)) = None
      \<longleftrightarrow> ac_name fd \<noteq> [] \<and> list_all name_char (ac_name fd)"
    by (simp add: validateForm_name_ok_iff name_pattern_def)
  have 4: "fe_name (snd (validateForm fd)) \<noteq> None \<longrightarrow> submitForm st fd = None"
    by (auto simp: submitForm_def validateForm_def Let_def)
  from 1 2 3 4 show ?thesis by blast
qed

theorem name_validation_server_and_form_witness:
  "(\<exists>e \<in> set (createApplicationValidation \<lparr> car_name = Some (JStr []), car_description = None \<rparr>).
       ve_path e = ''name'')
   \<and> createApplicationValidation \<lparr> car_name = Some (JStr []), car_description = None \<rparr> \<noteq> []
   \<and> create 50 \<lparr> car_name = Some (JStr []), car_description = None \<rparr> example_db
       = ((400, ValidationFailed
             (createApplicationValidation \<lparr> car_name = Some (JStr []), car_description = None \<rparr>)),
          example_db)
   \<and> fe_name (snd (validateForm \<lparr> ac_name = ''my app!'', ac_description = None \<rparr>)) \<noteq> None
   \<and> submitForm Idle \<lparr> ac_name = ''my app!'', ac_description = None \<rparr> = None"
proof -
  have v: "createApplicationValidation \<lparr> car_name = Some (JStr []), car_description = None \<rparr> \<noteq> []"
    by (simp add: createApplicationValidation_def check_def isString_def isLength_def)
  have n: "\<not> list_all name_char ''my app!''"
    by (simp add: name_char_def)
  note w = name_validation_server_and_form
    [where rq = "\<lparr> car_name = Some (JStr []), car_description = None \<rparr>" and now = 50
       and db = example_db and fd = "\<lparr> ac_name = ''my app!'', ac_description = None \<rparr>"
       and st = Idle]
  from w have 1: "\<exists>e \<in> set (createApplicationValidation \<lparr> car_name = Some (JStr []), car_description = None \<rparr>).
       ve_path e = ''name''"
    by simp
  from w v have 2: "create 50 \<lparr> car_name = Some (JStr []), car_description = None \<rparr> example_db
       = ((400, ValidationFailed
             (createApplicationValidation \<lparr> car_name = Some (JStr []), car_description = None \<rparr>)),
          example_db)"
    by blast
  from w n have 3: "fe_name (snd (validateForm \<lparr> ac_name = ''my app!'', ac_description = None \<rparr>)) \<noteq> None"
    by simp
  with w have 4: "submitForm Idle \<lparr> ac_name = ''my app!'', ac_description = None \<rparr> = None"
    by blast
  from 1 v 2 3 4 show ?thesis by blast
qed
section \<open>Properties of the client\<close>

text \<open>
  The two methods with a body evaluate \<open>JSON.stringify\<close> before \<open>request\<close> is
  entered: an argument that has no JSON text rejects their promise with the
  \<open>TypeError\<close>.
\<close>

lemma body_methods_unserialisable:
  "createApplication client fetch (Unserialisable msg) = Inl (ErrorObject ''TypeError'' msg)
   \<and> updateConfiguration client fetch ident (Unserialisable msg)
       = Inl (ErrorObject ''TypeError'' msg)"
  by (simp add: createApplication_def updateConfiguration_def JSON_stringify_def)

text \<open>
  C8 (as stated: a successful response returns \<open>success: true\<close> with the parsed body).
  A response with status 200 whose body is not JSON makes \<open>response.json()\<close> throw; the
  \<open>catch\<close> block of \<open>request\<close> turns that into \<open>success: false\<close> with the parser's
  message.
\<close>

theorem client_malformed_body_counterexample:
  "ok \<lparr> rsp_status = 200, rsp_json = Inl (ErrorObject ''SyntaxError'' ''Unexpected token N'') \<rparr>
   \<and> getApplications (new_ConfigClient \<lparr> opt_baseUrl = None, opt_timeout = None \<rparr>)
        (\<lambda>url init. Resolved
           \<lparr> rsp_status = 200, rsp_json = Inl (ErrorObject ''SyntaxError'' ''Unexpected token N'') \<rparr>)
     = Inr (Failure (Some (JStr ''Unexpected token N'')))"
  by (simp add: getApplications_def request_def request_try_def request_catch_def ok_def)

text \<open>
  C8 (amended). The methods \<open>getHealth\<close>, \<open>getApplications\<close>, \<open>getApplication\<close>,
  \<open>deleteApplication\<close>, \<open>getConfiguration\<close> and \<open>getConfigByName\<close> always return the
  result value of \<open>request\<close> for their endpoint, and \<open>createApplication\<close> and
  \<open>updateConfiguration\<close> do so when their argument can be serialised. The result of
  \<open>request\<close>: when \<open>fetch\<close> is rejected (network error, abort by the timeout), and
  when the body of a response with a status other than 204 does not parse, it is what the
  \<open>catch\<close> block makes of the error, that is \<open>success: false\<close> with the message of
  the error, prefixed with \<open>Request aborted: \<close> when the error is named \<open>AbortError\<close>
  or its message contains \<open>aborted\<close>, and with \<open>Network error\<close> when what was thrown
  is not an \<open>Error\<close>. A response with a non-ok status always gives \<open>success: false\<close>,
  with the \<open>detail\<close> member of the error body (\<open>undefined\<close> when it has none) when the
  body is a JSON object. A response with an ok status gives \<open>success: true\<close> without
  data for status 204, and \<open>success: true\<close> with the parsed body when the status is
  another one and the body parses.
\<close>

theorem client_methods_uniform_result:
  "getHealth client fetch = Inr (request client fetch ''/health'' GET)
   \<and> getApplications client fetch = Inr (request client fetch ''/applications'' GET)
   \<and> getApplication client fetch ident = Inr (request client fetch (''/applications/'' @ ident) GET)
   \<and> deleteApplication client fetch ident
       = Inr (request client fetch (''/applications/'' @ ident)
                \<lparr> ri_method = ''DELETE'', ri_body = None \<rparr>)
   \<and> getConfiguration client fetch ident
       = Inr (request client fetch (''/applications/'' @ ident @ ''/config'') GET)
   \<and> getConfigByName client fetch appName = Inr (request client fetch (''/config/'' @ appName) GET)
   \<and> createApplication client fetch (Plain j)
       = Inr (request client fetch ''/applications'' \<lparr> ri_method = ''POST'', ri_body = Some j \<rparr>)
   \<and> updateConfiguration client fetch ident (Plain j)
       = Inr (request client fetch (''/applications/'' @ ident @ ''/config'')
                \<lparr> ri_method = ''PUT'', ri_body = Some j \<rparr>)
   \<and> (fetch (baseUrl client @ endpoint) options = Rejected t
      \<longrightarrow> request client fetch endpoint options = request_catch t)
   \<and> (fetch (baseUrl client @ endpoint) options = Resolved r \<and> rsp_status r \<noteq> 204
        \<and> rsp_json r = Inl t
      \<longrightarrow> request client fetch endpoint options = request_catch t)
   \<and> request_catch (ErrorObject nm m)
       = Failure (Some (JStr (if nm = ''AbortError'' \<or> str_includes m ''aborted''
                              then ''Request aborted: '' @ m else m)))
   \<and> request_catch NonError = Failure (Some (JStr ''Network error''))
   \<and> (fetch (baseUrl client @ endpoint) options = Resolved r \<and> \<not> ok r
      \<longrightarrow> (\<exists>e. request client fetch endpoint options = Failure e))
   \<and> (fetch (baseUrl client @ endpoint) options = Resolved r \<and> \<not> ok r
        \<and> rsp_json r = Inr (JObj members)
      \<longrightarrow> request client fetch endpoint options = Failure (map_of members ''detail''))
   \<and> (fetch (baseUrl client @ endpoint) options = Resolved r \<and> ok r \<and> rsp_status r = 204
      \<longrightarrow> request client fetch endpoint options = Success None)
   \<and> (fetch (baseUrl client @ endpoint) options = Resolved r \<and> ok r \<and> rsp_status r \<noteq> 204
        \<and> rsp_json r = Inr data
      \<longrightarrow> request client fetch endpoint options = Success (Some data))"
proof -
  have catch: "\<And>x. \<exists>e. request_catch x = Failure e"
    by (simp add: request_catch_def split: thrown.splits)
  have m1: "getHealth client fetch = Inr (request client fetch ''/health'' GET)"
    by (simp add: getHealth_def)
  have m2: "getApplications client fetch = Inr (request client fetch ''/applications'' GET)"
    by (simp add: getApplications_def)
  have m3: "getApplication client fetch ident
       = Inr (request client fetch (''/applications/'' @ ident) GET)"
    by (simp add: getApplication_def)
  have m4: "deleteApplication client fetch ident
       = Inr (request client fetch (''/applications/'' @ ident)
                \<lparr> ri_method = ''DELETE'', ri_body = None \<rparr>)"
    by (simp add: deleteApplication_def)
  have m5: "getConfiguration client fetch ident
       = Inr (request client fetch (''/applications/'' @ ident @ ''/config'') GET)"
    by (simp add: getConfiguration_def)
  have m6: "getConfigByName client fetch appName
       = Inr (request client fetch (''/config/'' @ appName) GET)"
    by (simp add: getConfigByName_def)
  have m7: "createApplication client fetch (Plain j)
       = Inr (request client fetch ''/applications'' \<lparr> ri_method = ''POST'', ri_body = Some j \<rparr>)"
    by (simp add: createApplication_def JSON_stringify_def)
  have m8: "updateConfiguration client fetch ident (Plain j)
       = Inr (request client fetch (''/applications/'' @ ident @ ''/config'')
                \<lparr> ri_method = ''PUT'', ri_body = Some j \<rparr>)"
    by (simp add: updateConfiguration_def JSON_stringify_def)
  have r1: "fetch (baseUrl client @ endpoint) options = Rejected t
      \<longrightarrow> request client fetch endpoint options = request_catch t"
    by (simp add: request_def request_try_def)
  have r2: "fetch (baseUrl client @ endpoint) options = Resolved r \<and> rsp_status r \<noteq> 204
        \<and> rsp_json r = Inl t
      \<longrightarrow> request client fetch endpoint options = request_catch t"
    by (simp add: request_def request_try_def)
  have c1: "request_catch (ErrorObject nm m)
       = Failure (Some (JStr (if nm = ''AbortError'' \<or> str_includes m ''aborted''
                              then ''Request aborted: '' @ m else m)))"
    by (simp add: request_catch_def)
  have c2: "request_catch NonError = Failure (Some (JStr ''Network error''))"
    by (simp add: request_catch_def)
  have r3: "fetch (baseUrl client @ endpoint) options = Resolved r \<and> \<not> ok r
      \<longrightarrow> (\<exists>e. request client fetch endpoint options = Failure e)"
    using catch by (auto simp: request_def request_try_def split: sum.splits)
  have r4: "fetch (baseUrl client @ endpoint) options = Resolved r \<and> \<not> ok r
        \<and> rsp_json r = Inr (JObj members)
      \<longrightarrow> request client fetch endpoint options = Failure (map_of members ''detail'')"
    by (simp add: request_def request_try_def detail_of_def)
  have r5: "fetch (baseUrl client @ endpoint) options = Resolved r \<and> ok r \<and> rsp_status r = 204
      \<longrightarrow> request client fetch endpoint options = Success None"
    by (simp add: request_def request_try_def)
  have r6: "fetch (baseUrl client @ endpoint) options = Resolved r \<and> ok r \<and> rsp_status r \<noteq> 204
        \<and> rsp_json r = Inr data
      \<longrightarrow> request client fetch endpoint options = Success (Some data)"
    by (simp add: request_def request_try_def)
  show ?thesis
    by (intro conjI m1 m2 m3 m4 m5 m6 m7 m8 r1 r2 c1 c2 r3 r4 r5 r6)
qed

theorem client_methods_uniform_result_witness:
  "\<not> ok \<lparr> rsp_status = 404, rsp_json = Inr (JObj [(''detail'', JStr ''Application not found'')]) \<rparr>
   \<and> getApplication (new_ConfigClient \<lparr> opt_baseUrl = None, opt_timeout = None \<rparr>)
        (\<lambda>url init. Resolved
           \<lparr> rsp_status = 404, rsp_json = Inr (JObj [(''detail'', JStr ''Application not found'')]) \<rparr>)
        ''42''
     = Inr (Failure (Some (JStr ''Application not found'')))
   \<and> ok \<lparr> rsp_status = 200, rsp_json = Inr (JObj [(''status'', JStr ''healthy'')]) \<rparr>
   \<and> getHealth (new_ConfigClient \<lparr> opt_baseUrl = None, opt_timeout = None \<rparr>)
        (\<lambda>url init. Resolved
           \<lparr> rsp_status = 200, rsp_json = Inr (JObj [(''status'', JStr ''healthy'')]) \<rparr>)
     = Inr (Success (Some (JObj [(''status'', JStr ''healthy'')])))
   \<and> ok \<lparr> rsp_status = 204, rsp_json = Inl (ErrorObject ''SyntaxError'' ''Unexpected end of JSON input'') \<rparr>
   \<and> deleteApplication (new_ConfigClient \<lparr> opt_baseUrl = None, opt_timeout = None \<rparr>)
        (\<lambda>url init. Resolved
           \<lparr> rsp_status = 204,
             rsp_json = Inl (ErrorObject ''SyntaxError'' ''Unexpected end of JSON input'') \<rparr>)
        ''42''
     = Inr (Success None)
   \<and> getHealth (new_ConfigClient \<lparr> opt_baseUrl = None, opt_timeout = None \<rparr>)
        (\<lambda>url init. Rejected (ErrorObject ''TypeError'' ''Failed to fetch''))
     = Inr (Failure (Some (JStr ''Failed to fetch'')))
   \<and> createApplication (new_ConfigClient \<lparr> opt_baseUrl = None, opt_timeout = None \<rparr>)
        (\<lambda>url init. Rejected (ErrorObject ''AbortError'' ''The operation was aborted.''))
        (Plain (JObj [(''name'', JStr ''catalog'')]))
     = Inr (Failure (Some (JStr ''Request aborted: The operation was aborted.'')))
   \<and> getConfiguration (new_ConfigClient \<lparr> opt_baseUrl = None, opt_timeout = None \<rparr>)
        (\<lambda>url init. Resolved
           \<lparr> rsp_status = 502, rsp_json = Inl (ErrorObject ''SyntaxError'' ''Unexpected token <'') \<rparr>)
        ''42''
     = Inr (Failure (Some (JStr ''Unexpected token <'')))"
proof -
  let ?c = "new_ConfigClient \<lparr> opt_baseUrl = None, opt_timeout = None \<rparr>"
  let ?r404 = "\<lparr> rsp_status = 404, rsp_json = Inr (JObj [(''detail'', JStr ''Application not found'')]) \<rparr>"
  let ?r200 = "\<lparr> rsp_status = 200, rsp_json = Inr (JObj [(''status'', JStr ''healthy'')]) \<rparr>"
  let ?r204 = "\<lparr> rsp_status = 204,
      rsp_json = Inl (ErrorObject ''SyntaxError'' ''Unexpected end of JSON input'') \<rparr>"
  let ?r502 = "\<lparr> rsp_status = 502, rsp_json = Inl (ErrorObject ''SyntaxError'' ''Unexpected token <'') \<rparr>"
  have n: "\<not> ok ?r404" and y: "ok ?r200" and z: "ok ?r204"
    by (simp_all add: ok_def)
  from client_methods_uniform_result
    [where fetch = "\<lambda>url init. Resolved ?r404" and client = ?c and r = ?r404
       and members = "[(''detail'', JStr ''Application not found'')]"
       and ident = "''42''" and endpoint = "''/applications/'' @ ''42''"
       and options = GET] n
  have 1: "getApplication ?c (\<lambda>url init. Resolved ?r404) ''42''
      = Inr (Failure (Some (JStr ''Application not found'')))"
    by simp
  from client_methods_uniform_result
    [where fetch = "\<lambda>url init. Resolved ?r200" and client = ?c and r = ?r200
       and data = "JObj [(''status'', JStr ''healthy'')]" and endpoint = "''/health''"
       and options = GET] y
  have 2: "getHealth ?c (\<lambda>url init. Resolved ?r200)
      = Inr (Success (Some (JObj [(''status'', JStr ''healthy'')])))"
    by simp
  from client_methods_uniform_result
    [where fetch = "\<lambda>url init. Resolved ?r204" and client = ?c and r = ?r204
       and ident = "''42''" and endpoint = "''/applications/'' @ ''42''"
       and options = "\<lparr> ri_method = ''DELETE'', ri_body = None \<rparr>"] z
  have 3: "deleteApplication ?c (\<lambda>url init. Resolved ?r204) ''42'' = Inr (Success None)"
    by simp
  from client_methods_uniform_result
    [where fetch = "\<lambda>url init. Rejected (ErrorObject ''TypeError'' ''Failed to fetch'')"
       and client = ?c and t = "ErrorObject ''TypeError'' ''Failed to fetch''"
       and nm = "''TypeError''" and m = "''Failed to fetch''"
       and endpoint = "''/health''" and options = GET]
  have 4: "getHealth ?c (\<lambda>url init. Rejected (ErrorObject ''TypeError'' ''Failed to fetch''))
      = Inr (Failure (Some (JStr ''Failed to fetch'')))"
    by simp
  from client_methods_uniform_result
    [where fetch = "\<lambda>url init. Rejected (ErrorObject ''AbortError'' ''The operation was aborted.'')"
       and client = ?c and t = "ErrorObject ''AbortError'' ''The operation was aborted.''"
       and nm = "''AbortError''" and m = "''The operation was aborted.''"
       and j = "JObj [(''name'', JStr ''catalog'')]"
       and endpoint = "''/applications''"
       and options = "\<lparr> ri_method = ''POST'', ri_body = Some (JObj [(''name'', JStr ''catalog'')]) \<rparr>"]
  have 5: "createApplication ?c
        (\<lambda>url init. Rejected (ErrorObject ''AbortError'' ''The operation was aborted.''))
        (Plain (JObj [(''name'', JStr ''catalog'')]))
      = Inr (Failure (Some (JStr ''Request aborted: The operation was aborted.'')))"
    by simp
  from client_methods_uniform_result
    [where fetch = "\<lambda>url init. Resolved ?r502" and client = ?c and r = ?r502
       and t = "ErrorObject ''SyntaxError'' ''Unexpected token <''"
       and nm = "''SyntaxError''" and m = "''Unexpected token <''"
       and ident = "''42''" and endpoint = "''/applications/'' @ ''42'' @ ''/config''"
       and options = GET]
  have 6: "getConfiguration ?c (\<lambda>url init. Resolved ?r502) ''42''
      = Inr (Failure (Some (JStr ''Unexpected token <'')))"
    by simp
  from n 1 y 2 z 3 4 5 6 show ?thesis by blast
qed

end
